theory Spec2Isabelle
  imports Complex_Main
begin

section \<open>Python values and library functions\<close>

text \<open>
  The collector handles decoded JSON, which Python types dynamically. A \<open>pyval\<close> is
  such a value; a JSON object is an association list whose keys are strings (the keys
  of a decoded object are distinct). Floats are idealised as reals: rounding is not
  modelled.
\<close>

datatype pyval =
    PNone
  | PBool bool
  | PInt int
  | PFloat real
  | PStr string
  | PList "pyval list"
  | PDict "(string \<times> pyval) list"

datatype exn = AttributeError | TypeError | KeyError | IndexError | OSError | OverflowError

record datetime =
  year :: nat
  month :: nat
  day :: nat
  hour :: nat
  minute :: nat
  second :: nat
  microsecond :: nat

text \<open>
  Functions of the Python standard library that the source calls on text. They are not
  code of the repository, so the model takes them as a parameter:
  \<open>strftime\<close> and \<open>strptime\<close> are \<^verbatim>\<open>datetime.strftime\<close> and
  \<^verbatim>\<open>datetime.strptime\<close> at the fixed format \<^verbatim>\<open>%Y-%m-%d %H:%M:%S\<close>,
  \<open>py_float\<close> and \<open>py_int\<close> are \<^verbatim>\<open>float(s)\<close> and \<^verbatim>\<open>int(s)\<close>
  (\<open>None\<close> where Python raises ValueError), and \<open>py_str\<close> is \<^verbatim>\<open>str(v)\<close>
  of a number. Two more are float arithmetic, which rounds: \<open>float_of_big_int\<close> is
  the conversion of an integer beyond \<open>2 ^ 53\<close> to the nearest float (\<open>None\<close>
  where Python raises OverflowError, the integer being out of the floats' range), and
  \<open>mul_0_7 x\<close> is the float product \<^verbatim>\<open>x * 0.7\<close>.
\<close>

record pylib =
  strftime :: "datetime \<Rightarrow> string"
  strptime :: "string \<Rightarrow> datetime option"
  py_float :: "string \<Rightarrow> real option"
  py_int :: "string \<Rightarrow> int option"
  py_str :: "pyval \<Rightarrow> string"
  float_of_big_int :: "int \<Rightarrow> real option"
  mul_0_7 :: "real \<Rightarrow> real"

text \<open>
  The float of an integer, as a product with a float forms it: every integer up to
  \<open>2 ^ 53\<close> is a float.
\<close>

definition to_float :: "pylib \<Rightarrow> int \<Rightarrow> real option" where
  "to_float lib i =
     (if \<bar>i\<bar> \<le> 2 ^ 53 then Some (real_of_int i) else float_of_big_int lib i)"

definition py_bind :: "exn + 'a \<Rightarrow> ('a \<Rightarrow> exn + 'b) \<Rightarrow> exn + 'b" where
  "py_bind r f = (case r of Inl e \<Rightarrow> Inl e | Inr v \<Rightarrow> f v)"

text \<open>Truth value testing: \<^verbatim>\<open>if x\<close>, \<^verbatim>\<open>not x\<close>, \<^verbatim>\<open>x and y\<close>, \<^verbatim>\<open>x or y\<close>.\<close>

fun truthy :: "pyval \<Rightarrow> bool" where
  "truthy PNone = False"
| "truthy (PBool b) = b"
| "truthy (PInt i) = (i \<noteq> 0)"
| "truthy (PFloat x) = (x \<noteq> 0)"
| "truthy (PStr s) = (s \<noteq> [])"
| "truthy (PList xs) = (xs \<noteq> [])"
| "truthy (PDict kvs) = (kvs \<noteq> [])"

text \<open>\<^verbatim>\<open>x.get(k, default)\<close>: only a dict has the method.\<close>

definition py_get :: "pyval \<Rightarrow> string \<Rightarrow> pyval \<Rightarrow> exn + pyval" where
  "py_get x k dflt =
     (case x of
        PDict kvs \<Rightarrow> Inr (case map_of kvs k of Some v \<Rightarrow> v | None \<Rightarrow> dflt)
      | _ \<Rightarrow> Inl AttributeError)"

text \<open>\<^verbatim>\<open>len(x)\<close>.\<close>

definition py_len :: "pyval \<Rightarrow> exn + nat" where
  "py_len x =
     (case x of
        PStr s \<Rightarrow> Inr (length s)
      | PList xs \<Rightarrow> Inr (length xs)
      | PDict kvs \<Rightarrow> Inr (length kvs)
      | _ \<Rightarrow> Inl TypeError)"

text \<open>\<^verbatim>\<open>x[0]\<close>: a decoded JSON object has no integer key.\<close>

definition py_first :: "pyval \<Rightarrow> exn + pyval" where
  "py_first x =
     (case x of
        PList xs \<Rightarrow> (case xs of [] \<Rightarrow> Inl IndexError | y # _ \<Rightarrow> Inr y)
      | PStr s \<Rightarrow> (case s of [] \<Rightarrow> Inl IndexError | c # _ \<Rightarrow> Inr (PStr [c]))
      | PDict kvs \<Rightarrow> Inl KeyError
      | _ \<Rightarrow> Inl TypeError)"

text \<open>\<^verbatim>\<open>x["k"]\<close> with a string key.\<close>

definition py_item :: "pyval \<Rightarrow> string \<Rightarrow> exn + pyval" where
  "py_item x k =
     (case x of
        PDict kvs \<Rightarrow> (case map_of kvs k of Some v \<Rightarrow> Inr v | None \<Rightarrow> Inl KeyError)
      | _ \<Rightarrow> Inl TypeError)"

text \<open>The elements \<^verbatim>\<open>for v in x\<close> visits.\<close>

definition py_iter :: "pyval \<Rightarrow> exn + pyval list" where
  "py_iter x =
     (case x of
        PList xs \<Rightarrow> Inr xs
      | PStr s \<Rightarrow> Inr (map (\<lambda>c. PStr [c]) s)
      | PDict kvs \<Rightarrow> Inr (map (\<lambda>kv. PStr (fst kv)) kvs)
      | _ \<Rightarrow> Inl TypeError)"

text \<open>A list or a dict cannot be a dictionary key.\<close>

fun hashable :: "pyval \<Rightarrow> bool" where
  "hashable (PList xs) = False"
| "hashable (PDict kvs) = False"
| "hashable v = True"

text \<open>\<^verbatim>\<open>d.get(k)\<close> on the local dictionary \<^verbatim>\<open>values\<close>.\<close>

definition dict_get :: "(pyval \<rightharpoonup> pyval) \<Rightarrow> pyval \<Rightarrow> pyval" where
  "dict_get d k = (case d k of Some v \<Rightarrow> v | None \<Rightarrow> PNone)"

section \<open>Configuration and the Measurement\<close>

record Config =
  airly_api_key :: string
  installation_id :: int
  cfg_latitude :: real
  cfg_longitude :: real
  city_name :: string
  enable_database :: bool
  csv_file :: string
  enable_csv :: bool
  hsbi_api_url :: string
  hsbi_sensor_id :: int
  hsbi_altitude :: real
  hsbi_verify_ssl :: bool
  enable_hsbi :: bool

text \<open>
  The dataclass annotates the measured fields \<^verbatim>\<open>Optional[float]\<close> but does not
  enforce it: \<open>parse_measurement\<close> stores whatever the payload holds. They are
  \<open>pyval\<close>s, \<open>PNone\<close> for an absent one.
\<close>

record Measurement =
  timestamp :: datetime
  city :: string
  latitude :: real
  longitude :: real
  pm25 :: pyval
  pm10 :: pyval
  temperature :: pyval
  humidity :: pyval
  pressure :: pyval
  aqi :: pyval
  station_id :: "int option"

definition hour_utc :: "Measurement \<Rightarrow> int" where
  "hour_utc m = int (hour (timestamp m))"

definition minute_utc :: "Measurement \<Rightarrow> int" where
  "minute_utc m = int (minute (timestamp m))"

text \<open>\<^verbatim>\<open>x if x is not None else ""\<close>\<close>

definition or_empty :: "pyval \<Rightarrow> pyval" where
  "or_empty v = (if v \<noteq> PNone then v else PStr [])"

definition to_csv_row :: "pylib \<Rightarrow> Measurement \<Rightarrow> pyval list" where
  "to_csv_row lib m =
     [PStr (strftime lib (timestamp m)),
      PStr (city m),
      PFloat (latitude m),
      PFloat (longitude m),
      PInt (hour_utc m),
      PInt (minute_utc m),
      or_empty (pm25 m),
      or_empty (pm10 m),
      or_empty (temperature m),
      or_empty (humidity m),
      or_empty (pressure m),
      or_empty (aqi m)]"

definition CSV_HEADERS :: "string list" where
  "CSV_HEADERS =
     [''datetime_utc'', ''city'', ''lat'', ''lon'', ''hour_utc'', ''minute_utc'',
      ''PM25'', ''PM10'', ''TEMPERATURE'', ''HUMIDITY'', ''PRESSURE'', ''AQI'']"

section \<open>The normalizer\<close>

text \<open>
  The first part of \<^verbatim>\<open>parse_measurement\<close>: the choice of \<^verbatim>\<open>source\<close>.
  \<open>PNone\<close> is the source's initial \<^verbatim>\<open>None\<close>.
\<close>

definition select_source :: "pyval \<Rightarrow> exn + pyval" where
  "select_source data =
     py_bind (py_get data ''current'' PNone) (\<lambda>cur.
     py_bind (if truthy cur then py_get cur ''values'' PNone else Inr cur) (\<lambda>c.
       if truthy c then Inr cur
       else
         py_bind (py_get data ''history'' PNone) (\<lambda>hist.
           if \<not> truthy hist then Inr PNone
           else py_bind (py_len hist) (\<lambda>n. if n > 0 then py_first hist else Inr PNone))))"

text \<open>The loop \<^verbatim>\<open>for v in ...: values[v["name"]] = v["value"]\<close>.\<close>

fun collect_values :: "pyval list \<Rightarrow> (pyval \<rightharpoonup> pyval) \<Rightarrow> exn + (pyval \<rightharpoonup> pyval)" where
  "collect_values [] values = Inr values"
| "collect_values (v # vs) values =
     py_bind (py_item v ''value'') (\<lambda>val.
     py_bind (py_item v ''name'') (\<lambda>name.
       if hashable name then collect_values vs (values(name \<mapsto> val)) else Inl TypeError))"

definition extract_aqi :: "pyval \<Rightarrow> exn + pyval" where
  "extract_aqi source =
     py_bind (py_get source ''indexes'' (PList [])) (\<lambda>indexes.
       if truthy indexes
       then py_bind (py_first indexes) (\<lambda>i0. py_get i0 ''value'' PNone)
       else Inr PNone)"

definition parse_measurement :: "Config \<Rightarrow> datetime \<Rightarrow> pyval \<Rightarrow> exn + Measurement option" where
  "parse_measurement cfg now data =
     (if \<not> truthy data then Inr None
      else
        py_bind (select_source data) (\<lambda>source.
          if \<not> truthy source then Inr None
          else
            py_bind (py_get source ''values'' (PList [])) (\<lambda>vl.
            py_bind (py_iter vl) (\<lambda>vs.
            py_bind (collect_values vs Map.empty) (\<lambda>values.
            py_bind (extract_aqi source) (\<lambda>a.
              Inr (Some \<lparr>timestamp = now,
                         city = city_name cfg,
                         latitude = cfg_latitude cfg,
                         longitude = cfg_longitude cfg,
                         pm25 = dict_get values (PStr ''PM25''),
                         pm10 = dict_get values (PStr ''PM10''),
                         temperature = dict_get values (PStr ''TEMPERATURE''),
                         humidity = dict_get values (PStr ''HUMIDITY''),
                         pressure = dict_get values (PStr ''PRESSURE''),
                         aqi = a,
                         station_id = Some (installation_id cfg)\<rparr>)))))))"

section \<open>The store\<close>

text \<open>
  One row of the table \<^verbatim>\<open>measurements\<close>, without the generated id and the
  insertion time: the thirteen parameters of the INSERT statement, in its order.
  \<open>PNone\<close> is SQL NULL.
\<close>

record db_row =
  col_datetime_utc :: datetime
  col_city :: pyval
  col_lat :: pyval
  col_lon :: pyval
  col_hour_utc :: pyval
  col_minute_utc :: pyval
  col_pm25 :: pyval
  col_pm10 :: pyval
  col_temperature :: pyval
  col_humidity :: pyval
  col_pressure :: pyval
  col_aqi :: pyval
  col_station_id :: pyval

text \<open>
  \<^verbatim>\<open>SCHEMA_SQL\<close> declares city, lat, lon, hour_utc and minute_utc NOT NULL
  (datetime_utc too, which is never NULL here): an INSERT with NULL there raises.
\<close>

definition not_null_ok :: "db_row \<Rightarrow> bool" where
  "not_null_ok r \<longleftrightarrow>
     col_city r \<noteq> PNone \<and> col_lat r \<noteq> PNone \<and> col_lon r \<noteq> PNone \<and>
     col_hour_utc r \<noteq> PNone \<and> col_minute_utc r \<noteq> PNone"

section \<open>The sinks\<close>

datatype sink = Database | CsvFile | Hsbi

text \<open>
  What a cycle can change: the committed table, the CSV file (\<open>None\<close> while it
  does not exist; otherwise its rows, each a list of fields), the payloads the
  forwarding endpoint accepted, and the sinks invoked so far.
\<close>

record world =
  table :: "db_row list"
  csv :: "string list list option"
  posted :: "(string \<times> pyval) list list"
  invoked :: "sink list"

text \<open>
  What the outside does during one cycle: the clock, the provider's decoded response
  (\<open>None\<close> for a \<^verbatim>\<open>RequestException\<close>), and which calls fail.
\<close>

record cycle_env =
  now :: datetime
  airly_response :: "pyval option"
  db_connect_fails :: bool
  db_execute_fails :: bool
  makedirs_fails :: bool
  csv_write_fails :: bool
  hsbi_post_fails :: bool

definition fetch_from_airly :: "Config \<Rightarrow> cycle_env \<Rightarrow> pyval option" where
  "fetch_from_airly cfg env = (if airly_api_key cfg = [] then None else airly_response env)"

definition opt_int :: "int option \<Rightarrow> pyval" where
  "opt_int v = (case v of None \<Rightarrow> PNone | Some n \<Rightarrow> PInt n)"

text \<open>The parameter tuple of the INSERT in \<^verbatim>\<open>save_to_database\<close>.\<close>

definition insert_params :: "Measurement \<Rightarrow> db_row" where
  "insert_params m =
     \<lparr>col_datetime_utc = timestamp m,
      col_city = PStr (city m),
      col_lat = PFloat (latitude m),
      col_lon = PFloat (longitude m),
      col_hour_utc = PInt (hour_utc m),
      col_minute_utc = PInt (minute_utc m),
      col_pm25 = pm25 m,
      col_pm10 = pm10 m,
      col_temperature = temperature m,
      col_humidity = humidity m,
      col_pressure = pressure m,
      col_aqi = aqi m,
      col_station_id = opt_int (station_id m)\<rparr>"

definition save_to_database :: "cycle_env \<Rightarrow> Measurement \<Rightarrow> world \<Rightarrow> bool \<times> world" where
  "save_to_database env m w =
     (let w0 = w\<lparr>invoked := invoked w @ [Database]\<rparr> in
      if db_connect_fails env then (False, w0)
      else if db_execute_fails env then (False, w0)
      else (True, w0\<lparr>table := table w0 @ [insert_params m]\<rparr>))"

text \<open>\<^verbatim>\<open>os.path.dirname\<close> (posixpath).\<close>

definition dirname :: "string \<Rightarrow> string" where
  "dirname p =
     (let head = rev (dropWhile (\<lambda>c. c \<noteq> CHR ''/'') (rev p)) in
      if head \<noteq> [] \<and> list_ex (\<lambda>c. c \<noteq> CHR ''/'') head
      then rev (dropWhile (\<lambda>c. c = CHR ''/'') (rev head))
      else head)"

text \<open>
  The text \<^verbatim>\<open>csv.writer\<close> writes for a field: a string as it is, \<^verbatim>\<open>None\<close> as
  the empty field, anything else through \<^verbatim>\<open>str\<close>. Quoting is the csv module's
  business: a file is held as the fields a reader gets back.
\<close>

definition csv_text :: "pylib \<Rightarrow> pyval \<Rightarrow> string" where
  "csv_text lib v = (case v of PStr s \<Rightarrow> s | PNone \<Rightarrow> [] | _ \<Rightarrow> py_str lib v)"

text \<open>
  \<^verbatim>\<open>os.makedirs\<close> stands before the \<^verbatim>\<open>try\<close>: its error leaves the method.
  An \<^verbatim>\<open>IOError\<close> of \<^verbatim>\<open>open\<close> or of a write is caught; it is modelled as leaving
  the file as it was.
\<close>

definition save_to_csv ::
  "pylib \<Rightarrow> Config \<Rightarrow> cycle_env \<Rightarrow> Measurement \<Rightarrow> world \<Rightarrow> (exn + bool) \<times> world" where
  "save_to_csv lib cfg env m w =
     (let w0 = w\<lparr>invoked := invoked w @ [CsvFile]\<rparr> in
      if dirname (csv_file cfg) \<noteq> [] \<and> makedirs_fails env then (Inl OSError, w0)
      else if csv_write_fails env then (Inr False, w0)
      else
        (Inr True,
         w0\<lparr>csv := Some ((case csv w0 of None \<Rightarrow> [CSV_HEADERS] | Some rows \<Rightarrow> rows)
                          @ [map (csv_text lib) (to_csv_row lib m)])\<rparr>))"

text \<open>\<^verbatim>\<open>x or 0\<close>\<close>

definition or_zero :: "pyval \<Rightarrow> pyval" where
  "or_zero v = (if truthy v then v else PInt 0)"

text \<open>
  \<^verbatim>\<open>x * 0.7\<close>: the float product of a number, converted to a float first, with the
  float 0.7. An integer out of the floats' range raises OverflowError; a string, list
  or dict raises TypeError.
\<close>

definition times_0_7 :: "pylib \<Rightarrow> pyval \<Rightarrow> exn + pyval" where
  "times_0_7 lib v =
     (case v of
        PInt i \<Rightarrow>
          (case to_float lib i of
             None \<Rightarrow> Inl OverflowError
           | Some x \<Rightarrow> Inr (PFloat (mul_0_7 lib x)))
      | PFloat x \<Rightarrow> Inr (PFloat (mul_0_7 lib x))
      | PBool b \<Rightarrow> Inr (PFloat (mul_0_7 lib (if b then 1 else 0)))
      | _ \<Rightarrow> Inl TypeError)"

definition hsbi_payload :: "pylib \<Rightarrow> Config \<Rightarrow> Measurement \<Rightarrow> exn + (string \<times> pyval) list" where
  "hsbi_payload lib cfg m =
     py_bind (times_0_7 lib (or_zero (pm25 m))) (\<lambda>pm1.
       Inr [(''id'', PInt (hsbi_sensor_id cfg)),
            (''ts'', PStr (strftime lib (timestamp m))),
            (''pos'', PStr (''POINTZ('' @ py_str lib (PFloat (cfg_latitude cfg)) @ '' ''
                            @ py_str lib (PFloat (cfg_longitude cfg)) @ '' ''
                            @ py_str lib (PFloat (hsbi_altitude cfg)) @ '')'')),
            (''temp'', or_zero (temperature m)),
            (''hum'', or_zero (humidity m)),
            (''pres'', or_zero (pressure m)),
            (''mass_pm2_5'', or_zero (pm25 m)),
            (''mass_pm10'', or_zero (pm10 m)),
            (''mass_pm1_0'', pm1),
            (''mass_pm4'', or_zero (pm10 m)),
            (''number_pm0_5'', PInt 0),
            (''number_pm1_0'', PInt 0),
            (''number_pm2_5'', PInt 0),
            (''number_pm4'', PInt 0),
            (''number_pm10'', PInt 0)])"

definition send_to_hsbi ::
  "pylib \<Rightarrow> Config \<Rightarrow> cycle_env \<Rightarrow> Measurement \<Rightarrow> world \<Rightarrow> (exn + bool) \<times> world" where
  "send_to_hsbi lib cfg env m w =
     (let w0 = w\<lparr>invoked := invoked w @ [Hsbi]\<rparr> in
      if hsbi_api_url cfg = [] then (Inr False, w0)
      else
        (case hsbi_payload lib cfg m of
           Inl e \<Rightarrow> (Inl e, w0)
         | Inr payload \<Rightarrow>
             if hsbi_post_fails env then (Inr False, w0)
             else (Inr True, w0\<lparr>posted := posted w0 @ [payload]\<rparr>)))"

section \<open>The collection cycle\<close>

text \<open>The fan-out of \<^verbatim>\<open>collect_once\<close>, from \<^verbatim>\<open>success = True\<close> on.\<close>

definition deliver ::
  "pylib \<Rightarrow> Config \<Rightarrow> cycle_env \<Rightarrow> Measurement \<Rightarrow> world \<Rightarrow> (exn + bool) \<times> world" where
  "deliver lib cfg env m w =
     (let (ok_db, w1) = (if enable_database cfg then save_to_database env m w else (True, w)) in
      case (if enable_csv cfg then save_to_csv lib cfg env m w1 else (Inr True, w1)) of
        (Inl e, w2) \<Rightarrow> (Inl e, w2)
      | (Inr ok_csv, w2) \<Rightarrow>
          (case (if enable_hsbi cfg then send_to_hsbi lib cfg env m w2 else (Inr True, w2)) of
             (Inl e, w3) \<Rightarrow> (Inl e, w3)
           | (Inr sent, w3) \<Rightarrow> (Inr (ok_db \<and> ok_csv), w3)))"

definition collect_once ::
  "pylib \<Rightarrow> Config \<Rightarrow> cycle_env \<Rightarrow> world \<Rightarrow> (exn + bool) \<times> world" where
  "collect_once lib cfg env w =
     (case fetch_from_airly cfg env of
        None \<Rightarrow> (Inr False, w)
      | Some data \<Rightarrow>
          if \<not> truthy data then (Inr False, w)
          else
            (case parse_measurement cfg (now env) data of
               Inl e \<Rightarrow> (Inl e, w)
             | Inr None \<Rightarrow> (Inr False, w)
             | Inr (Some m) \<Rightarrow> deliver lib cfg env m w))"

section \<open>The migration engine\<close>

text \<open>
  \<^verbatim>\<open>csv.DictReader\<close>: the first row gives the field names; a later row becomes a
  dictionary from field name to field, \<^verbatim>\<open>None\<close> for the fields a short row lacks
  (a repeated field name keeps its last field; the surplus of a long row goes under
  the key \<^verbatim>\<open>None\<close>, which no lookup of the source reads). Empty rows are skipped.
\<close>

type_synonym csv_dict = "string \<rightharpoonup> string option"

definition dict_row :: "string list \<Rightarrow> string list \<Rightarrow> csv_dict" where
  "dict_row fieldnames row =
     map_of (rev (zip fieldnames
       (map Some row @ replicate (length fieldnames - length row) None)))"

definition DictReader :: "string list list \<Rightarrow> csv_dict list" where
  "DictReader lines =
     (case lines of
        [] \<Rightarrow> []
      | fieldnames # rows \<Rightarrow> map (dict_row fieldnames) (filter (\<lambda>r. r \<noteq> []) rows))"

text \<open>
  \<^verbatim>\<open>DEFAULT_STATION_ID = int(os.getenv("INSTALLATION_ID", "3387"))\<close>, from the
  process environment; \<open>None\<close> when \<^verbatim>\<open>int\<close> raises and the module does not load.
\<close>

definition DEFAULT_STATION_ID :: "pylib \<Rightarrow> (string \<rightharpoonup> string) \<Rightarrow> int option" where
  "DEFAULT_STATION_ID lib environ =
     py_int lib (case environ ''INSTALLATION_ID'' of None \<Rightarrow> ''3387'' | Some s \<Rightarrow> s)"

text \<open>
  The head of the loop body: \<^verbatim>\<open>dt\<close> and \<^verbatim>\<open>city\<close>. \<open>None\<close> is an exception
  (a missing column, a missing field under \<^verbatim>\<open>datetime_utc\<close>, a text that is no
  date), which the row's \<^verbatim>\<open>except Exception\<close> catches.
\<close>

definition row_key :: "pylib \<Rightarrow> csv_dict \<Rightarrow> (datetime \<times> pyval) option" where
  "row_key lib row =
     (case row ''datetime_utc'' of
        None \<Rightarrow> None
      | Some None \<Rightarrow> None
      | Some (Some s) \<Rightarrow>
          (case strptime lib s of
             None \<Rightarrow> None
           | Some dt \<Rightarrow>
               (case row ''city'' of
                  None \<Rightarrow> None
                | Some None \<Rightarrow> Some (dt, PNone)
                | Some (Some c) \<Rightarrow> Some (dt, PStr c))))"

text \<open>\<^verbatim>\<open>float(row[k]) if row[k] else None\<close> and \<^verbatim>\<open>int(row[k]) if row[k] else None\<close>;
  \<open>None\<close> is an exception.\<close>

definition float_or_none :: "pylib \<Rightarrow> csv_dict \<Rightarrow> string \<Rightarrow> pyval option" where
  "float_or_none lib row k =
     (case row k of
        None \<Rightarrow> None
      | Some None \<Rightarrow> Some PNone
      | Some (Some s) \<Rightarrow> if s = [] then Some PNone else map_option PFloat (py_float lib s))"

definition int_or_none :: "pylib \<Rightarrow> csv_dict \<Rightarrow> string \<Rightarrow> pyval option" where
  "int_or_none lib row k =
     (case row k of
        None \<Rightarrow> None
      | Some None \<Rightarrow> Some PNone
      | Some (Some s) \<Rightarrow> if s = [] then Some PNone else map_option PInt (py_int lib s))"

text \<open>\<^verbatim>\<open>int(row.get('station_id', DEFAULT_STATION_ID)) if row.get('station_id')
  else DEFAULT_STATION_ID\<close>\<close>

definition station_or_default :: "pylib \<Rightarrow> int \<Rightarrow> csv_dict \<Rightarrow> pyval option" where
  "station_or_default lib dflt row =
     (case row ''station_id'' of
        None \<Rightarrow> Some (PInt dflt)
      | Some None \<Rightarrow> Some (PInt dflt)
      | Some (Some s) \<Rightarrow> if s = [] then Some (PInt dflt) else map_option PInt (py_int lib s))"

text \<open>The tuple \<^verbatim>\<open>values\<close>; \<open>None\<close> when one of its conversions raises.\<close>

definition row_values :: "pylib \<Rightarrow> int \<Rightarrow> csv_dict \<Rightarrow> datetime \<Rightarrow> pyval \<Rightarrow> db_row option" where
  "row_values lib dflt row dt c =
     Option.bind (float_or_none lib row ''lat'') (\<lambda>lat.
     Option.bind (float_or_none lib row ''lon'') (\<lambda>lon.
     Option.bind (int_or_none lib row ''hour_utc'') (\<lambda>h.
     Option.bind (int_or_none lib row ''minute_utc'') (\<lambda>mi.
     Option.bind (float_or_none lib row ''PM25'') (\<lambda>p25.
     Option.bind (float_or_none lib row ''PM10'') (\<lambda>p10.
     Option.bind (float_or_none lib row ''TEMPERATURE'') (\<lambda>te.
     Option.bind (float_or_none lib row ''HUMIDITY'') (\<lambda>hu.
     Option.bind (float_or_none lib row ''PRESSURE'') (\<lambda>pr.
     Option.bind (float_or_none lib row ''AQI'') (\<lambda>aq.
     Option.bind (station_or_default lib dflt row) (\<lambda>sid.
       Some \<lparr>col_datetime_utc = dt,
             col_city = c,
             col_lat = lat,
             col_lon = lon,
             col_hour_utc = h,
             col_minute_utc = mi,
             col_pm25 = p25,
             col_pm10 = p10,
             col_temperature = te,
             col_humidity = hu,
             col_pressure = pr,
             col_aqi = aq,
             col_station_id = sid\<rparr>)))))))))))"

text \<open>
  \<^verbatim>\<open>check_query\<close>: a stored row answers the probe when both columns equal the
  parameters; a NULL parameter equals nothing. The store keeps a datetime as it was
  passed and compares cities by equality.
\<close>

definition key_matches :: "datetime \<Rightarrow> pyval \<Rightarrow> db_row \<Rightarrow> bool" where
  "key_matches dt c r \<longleftrightarrow> c \<noteq> PNone \<and> col_datetime_utc r = dt \<and> col_city r = c"

text \<open>
  What the outside does during one migration: the rows the csv reader yields from the
  file at the path (\<open>None\<close> when the path does not exist), and which calls fail.
  With \<open>reader_fails\<close> the reader raises after these rows instead of ending (it
  meets a byte it cannot decode, or a field over its size limit). A probe or an INSERT
  may fail at any data row, counted from 0.
\<close>

record migration_env =
  source_file :: "string list list option"
  connect_fails :: bool
  open_fails :: bool
  reader_fails :: bool
  check_fails :: "nat \<Rightarrow> bool"
  insert_fails :: "nat \<Rightarrow> bool"
  commit_fails :: bool

text \<open>The table as the open transaction sees it, and the three counters.\<close>

record migration_state =
  tbl :: "db_row list"
  rows_imported :: nat
  rows_skipped :: nat
  rows_duplicate :: nat

definition skip_row :: "migration_state \<Rightarrow> migration_state" where
  "skip_row st = st\<lparr>rows_skipped := rows_skipped st + 1\<rparr>"

text \<open>One pass of the loop body, for data row number \<open>i\<close>.\<close>

definition migrate_row ::
  "pylib \<Rightarrow> int \<Rightarrow> migration_env \<Rightarrow> bool \<Rightarrow> nat \<Rightarrow> csv_dict \<Rightarrow> migration_state
     \<Rightarrow> migration_state" where
  "migrate_row lib dflt env skip_duplicates i row st =
     (case row_key lib row of
        None \<Rightarrow> skip_row st
      | Some (dt, c) \<Rightarrow>
          if skip_duplicates \<and> check_fails env i then skip_row st
          else if skip_duplicates \<and> list_ex (key_matches dt c) (tbl st)
          then st\<lparr>rows_duplicate := rows_duplicate st + 1\<rparr>
          else
            (case row_values lib dflt row dt c of
               None \<Rightarrow> skip_row st
             | Some vals \<Rightarrow>
                 if insert_fails env i \<or> \<not> not_null_ok vals then skip_row st
                 else st\<lparr>tbl := tbl st @ [vals], rows_imported := rows_imported st + 1\<rparr>))"

fun migrate_rows ::
  "pylib \<Rightarrow> int \<Rightarrow> migration_env \<Rightarrow> bool \<Rightarrow> nat \<Rightarrow> csv_dict list \<Rightarrow> migration_state
     \<Rightarrow> migration_state" where
  "migrate_rows lib dflt env skip_duplicates i [] st = st"
| "migrate_rows lib dflt env skip_duplicates i (row # rows) st =
     migrate_rows lib dflt env skip_duplicates (Suc i) rows
       (migrate_row lib dflt env skip_duplicates i row st)"

text \<open>The summary the engine logs after the commit.\<close>

datatype log_line = RowsImported nat | DuplicatesSkipped nat | ErrorsSkipped nat

definition summary :: "migration_state \<Rightarrow> log_line list" where
  "summary st =
     [RowsImported (rows_imported st)]
     @ (if rows_duplicate st > 0 then [DuplicatesSkipped (rows_duplicate st)] else [])
     @ (if rows_skipped st > 0 then [ErrorsSkipped (rows_skipped st)] else [])"

record migration_result =
  returned :: bool
  logged :: "log_line list"
  store_after :: "db_row list"

definition start_state :: "db_row list \<Rightarrow> migration_state" where
  "start_state store = \<lparr>tbl = store, rows_imported = 0, rows_skipped = 0, rows_duplicate = 0\<rparr>"

text \<open>
  \<^verbatim>\<open>migrate_csv\<close> on the committed table \<open>store\<close>. Nothing is committed before
  the loop ends. \<^verbatim>\<open>for row in reader\<close> stands outside the row's \<^verbatim>\<open>try\<close>: an
  exception of the reader ends the loop and reaches the outer handler, as a failure
  of \<^verbatim>\<open>open\<close> or of the commit does; the handler rolls back what the loop did and
  returns \<open>False\<close> (the rollback itself is taken to succeed).
\<close>

definition migrate_csv ::
  "pylib \<Rightarrow> int \<Rightarrow> migration_env \<Rightarrow> bool \<Rightarrow> db_row list \<Rightarrow> migration_result" where
  "migrate_csv lib dflt env skip_duplicates store =
     (let failed = \<lparr>returned = False, logged = [], store_after = store\<rparr> in
      case source_file env of
        None \<Rightarrow> failed
      | Some lines \<Rightarrow>
          if connect_fails env then failed
          else if open_fails env then failed
          else
            (let st = migrate_rows lib dflt env skip_duplicates 0 (DictReader lines)
                        (start_state store)
             in if reader_fails env then failed
                else if commit_fails env then failed
                else \<lparr>returned = True, logged = summary st, store_after = tbl st\<rparr>))"

section \<open>Predicates of the statements and example inputs\<close>

text \<open>
  The float a product with a float converts its other operand to, \<open>None\<close> when
  the product raises; and the Measurements whose forwarding payload can be built,
  the product \<^verbatim>\<open>(pm25 or 0) * 0.7\<close> being its one operation that can raise.
\<close>

definition float_of :: "pylib \<Rightarrow> pyval \<Rightarrow> real option" where
  "float_of lib v =
     (case v of
        PInt i \<Rightarrow> to_float lib i
      | PFloat x \<Rightarrow> Some x
      | PBool b \<Rightarrow> Some (if b then 1 else 0)
      | _ \<Rightarrow> None)"

definition forwardable :: "pylib \<Rightarrow> Measurement \<Rightarrow> bool" where
  "forwardable lib m \<longleftrightarrow> float_of lib (or_zero (pm25 m)) \<noteq> None"

text \<open>A measured field as the dataclass annotates it: absent, or a float.\<close>

fun optional_float :: "pyval \<Rightarrow> bool" where
  "optional_float PNone = True"
| "optional_float (PFloat x) = True"
| "optional_float v = False"

text \<open>A timestamp without its part below the second, which the file's format leaves out.\<close>

definition whole_seconds :: "datetime \<Rightarrow> datetime" where
  "whole_seconds t = t\<lparr>microsecond := 0\<rparr>"

text \<open>
  Concrete inputs for the examples below. \<open>example_lib\<close> gives the library
  functions on the texts and numbers the examples use, as CPython computes them
  there (the one integer beyond \<open>2 ^ 53\<close> of the examples is \<open>10 ^ 400\<close>, out of
  the floats' range).
\<close>

definition example_time :: datetime where
  "example_time =
     \<lparr>year = 2024, month = 5, day = 1, hour = 14, minute = 30, second = 0, microsecond = 0\<rparr>"

definition example_lib :: pylib where
  "example_lib =
     \<lparr>strftime = (\<lambda>t. if whole_seconds t = example_time then ''2024-05-01 14:30:00''
                       else []),
      strptime = (\<lambda>s. if s = ''2024-05-01 14:30:00'' then Some example_time else None),
      py_float = map_of [(''54.352'', 54.352), (''18.6466'', 18.6466), (''12.5'', 12.5),
                         (''20.0'', 20), (''12.0'', 12), (''13.0'', 13), (''20'', 20)],
      py_int = map_of [(''14'', 14), (''30'', 30), (''3387'', 3387), (''42'', 42)],
      py_str = (\<lambda>v. if v = PFloat 54.352 then ''54.352''
                     else if v = PFloat 18.6466 then ''18.6466''
                     else if v = PFloat 12.5 then ''12.5''
                     else if v = PFloat 20 then ''20.0''
                     else if v = PFloat 10 then ''10.0''
                     else if v = PInt 14 then ''14''
                     else if v = PInt 30 then ''30''
                     else if v = PInt 20 then ''20''
                     else []),
      float_of_big_int = (\<lambda>i. None),
      mul_0_7 = (\<lambda>x. if x = 12.5 then 8.75 else if x = 20 then 14 else 0)\<rparr>"

definition example_config :: Config where
  "example_config =
     \<lparr>airly_api_key = ''key'', installation_id = 42, cfg_latitude = 54.352,
      cfg_longitude = 18.6466, city_name = ''Gdansk'', enable_database = True,
      csv_file = ''/data/airly_gdansk.csv'', enable_csv = False,
      hsbi_api_url = ''https://hsbi.example/api'', hsbi_sensor_id = 1, hsbi_altitude = 10,
      hsbi_verify_ssl = True, enable_hsbi = True\<rparr>"

definition example_payload :: pyval where
  "example_payload =
     PDict [(''current'',
             PDict [(''values'',
                     PList [PDict [(''name'', PStr ''PM25''), (''value'', PFloat 12.5)],
                            PDict [(''name'', PStr ''PM10''), (''value'', PFloat 20)]]),
                    (''indexes'', PList [])]),
            (''history'', PList [PDict [(''values'', PList [])]])]"

definition example_measurement :: Measurement where
  "example_measurement =
     \<lparr>timestamp = example_time, city = ''Gdansk'', latitude = 54.352, longitude = 18.6466,
      pm25 = PFloat 12.5, pm10 = PFloat 20, temperature = PNone, humidity = PNone,
      pressure = PNone, aqi = PNone, station_id = Some 42\<rparr>"

definition example_env :: cycle_env where
  "example_env =
     \<lparr>now = example_time, airly_response = Some example_payload, db_connect_fails = False,
      db_execute_fails = False, makedirs_fails = False, csv_write_fails = False,
      hsbi_post_fails = True\<rparr>"

definition empty_world :: world where
  "empty_world = \<lparr>table = [], csv = None, posted = [], invoked = []\<rparr>"

text \<open>
  The shape of a provider payload, a JSON object with nested "current" and "history"
  sections: the payload is an object, "current" is absent, null or an object whose
  "values" is absent, null or a list, and "history" is absent, null or a list. \<open>member x k\<close> is the member \<open>k\<close> of the object \<open>x\<close>, \<open>PNone\<close> when
  there is none.
\<close>

fun is_dict :: "pyval \<Rightarrow> bool" where
  "is_dict (PDict kvs) = True"
| "is_dict v = False"

fun list_or_absent :: "pyval \<Rightarrow> bool" where
  "list_or_absent PNone = True"
| "list_or_absent (PList xs) = True"
| "list_or_absent v = False"

definition member :: "pyval \<Rightarrow> string \<Rightarrow> pyval" where
  "member x k =
     (case x of
        PDict kvs \<Rightarrow> (case map_of kvs k of Some v \<Rightarrow> v | None \<Rightarrow> PNone)
      | _ \<Rightarrow> PNone)"

definition section_ok :: "pyval \<Rightarrow> bool" where
  "section_ok s \<longleftrightarrow> s = PNone \<or> is_dict s \<and> list_or_absent (member s ''values'')"

definition provider_payload :: "pyval \<Rightarrow> bool" where
  "provider_payload data \<longleftrightarrow>
     is_dict data \<and> section_ok (member data ''current'') \<and>
     list_or_absent (member data ''history'')"

text \<open>"A section that carries a non-empty values list."\<close>

definition carries_values :: "pyval \<Rightarrow> bool" where
  "carries_values s \<longleftrightarrow> (case member s ''values'' of PList (v # vs) \<Rightarrow> True | _ \<Rightarrow> False)"

text \<open>
  An entry of a values list as the provider sends it: an object with a string "name"
  and a "value". \<open>last_value vs n\<close> is the value of the last entry of \<open>vs\<close> named
  \<open>n\<close>, \<open>PNone\<close> when no entry has the name; \<open>first_index_value\<close> is the
  value of the first entry of "indexes", \<open>PNone\<close> without one.
\<close>

fun is_str :: "pyval \<Rightarrow> bool" where
  "is_str (PStr s) = True"
| "is_str v = False"

definition has_key :: "pyval \<Rightarrow> string \<Rightarrow> bool" where
  "has_key x k \<longleftrightarrow> (case x of PDict kvs \<Rightarrow> map_of kvs k \<noteq> None | _ \<Rightarrow> False)"

definition entry_ok :: "pyval \<Rightarrow> bool" where
  "entry_ok e \<longleftrightarrow> is_str (member e ''name'') \<and> has_key e ''value''"

definition named :: "string \<Rightarrow> pyval \<Rightarrow> bool" where
  "named n e \<longleftrightarrow> member e ''name'' = PStr n"

definition last_value :: "pyval list \<Rightarrow> string \<Rightarrow> pyval" where
  "last_value vs n =
     (case filter (named n) vs of [] \<Rightarrow> PNone | e # es \<Rightarrow> member (last (e # es)) ''value'')"

definition first_index_value :: "pyval \<Rightarrow> pyval" where
  "first_index_value source =
     (case member source ''indexes'' of PList (i0 # is) \<Rightarrow> member i0 ''value'' | _ \<Rightarrow> PNone)"

definition indexes_ok :: "pyval \<Rightarrow> bool" where
  "indexes_ok source \<longleftrightarrow>
     (case member source ''indexes'' of
        PNone \<Rightarrow> True
      | PList [] \<Rightarrow> True
      | PList (i0 # is) \<Rightarrow> is_dict i0
      | _ \<Rightarrow> False)"

text \<open>More example inputs: a payload without data, and one that repeats a name.\<close>

definition no_data_payload :: pyval where
  "no_data_payload =
     PDict [(''current'', PDict [(''values'', PList [])]), (''history'', PList [])]"

definition no_data_env :: cycle_env where
  "no_data_env = example_env\<lparr>airly_response := Some no_data_payload\<rparr>"

definition repeated_payload :: pyval where
  "repeated_payload =
     PDict [(''current'',
             PDict [(''values'',
                     PList [PDict [(''name'', PStr ''PM25''), (''value'', PFloat 12.5)],
                            PDict [(''name'', PStr ''NO2''), (''value'', PFloat 7)],
                            PDict [(''name'', PStr ''PM25''), (''value'', PFloat 13)]]),
                    (''indexes'',
                     PList [PDict [(''name'', PStr ''AIRLY_CAQI''), (''value'', PFloat 35.5)],
                            PDict [(''name'', PStr ''OTHER''), (''value'', PFloat 1)]])])]"

definition repeated_values :: "pyval list" where
  "repeated_values =
     [PDict [(''name'', PStr ''PM25''), (''value'', PFloat 12.5)],
      PDict [(''name'', PStr ''NO2''), (''value'', PFloat 7)],
      PDict [(''name'', PStr ''PM25''), (''value'', PFloat 13)]]"

text \<open>A Measurement with all optional measured fields absent.\<close>

definition all_absent :: "Measurement \<Rightarrow> bool" where
  "all_absent m \<longleftrightarrow>
     pm25 m = PNone \<and> pm10 m = PNone \<and> temperature m = PNone \<and>
     humidity m = PNone \<and> pressure m = PNone \<and> aqi m = PNone"


text \<open>An example Measurement without measured fields.\<close>

definition bare_measurement :: Measurement where
  "bare_measurement =
     example_measurement\<lparr>pm25 := PNone, pm10 := PNone\<rparr>"

text \<open>
  The three counts as a reader takes them from the logged summary: a line the engine
  leaves out (it logs the duplicate and the skipped count only when positive) reads
  as 0.
\<close>

fun reported :: "log_line list \<Rightarrow> nat \<times> nat \<times> nat" where
  "reported [] = (0, 0, 0)"
| "reported (RowsImported n # ls) = (case reported ls of (i, d, s) \<Rightarrow> (n, d, s))"
| "reported (DuplicatesSkipped n # ls) = (case reported ls of (i, d, s) \<Rightarrow> (i, n, s))"
| "reported (ErrorsSkipped n # ls) = (case reported ls of (i, d, s) \<Rightarrow> (i, d, n))"

text \<open>The other two ways a pass of the loop body changes the state.\<close>

definition mark_duplicate :: "migration_state \<Rightarrow> migration_state" where
  "mark_duplicate st = st\<lparr>rows_duplicate := rows_duplicate st + 1\<rparr>"

definition import_row :: "db_row \<Rightarrow> migration_state \<Rightarrow> migration_state" where
  "import_row vals st = st\<lparr>tbl := tbl st @ [vals], rows_imported := rows_imported st + 1\<rparr>"

text \<open>The rows the counters account for.\<close>

definition accounted :: "migration_state \<Rightarrow> nat" where
  "accounted st = rows_imported st + rows_duplicate st + rows_skipped st"

text \<open>
  Example inputs of the migration: an outside without failures, a file with a row
  whose date does not parse, and the rows the store then holds.
\<close>

definition no_faults :: "string list list option \<Rightarrow> migration_env" where
  "no_faults file =
     \<lparr>source_file = file, connect_fails = False, open_fails = False, reader_fails = False,
      check_fails = (\<lambda>i. False), insert_fails = (\<lambda>i. False), commit_fails = False\<rparr>"

definition example_row :: "string \<Rightarrow> string \<Rightarrow> string \<Rightarrow> string list" where
  "example_row ts c p25 =
     [ts, c, ''54.352'', ''18.6466'', ''14'', ''30'', p25, ''20.0'', [], [], [], []]"


definition example_stored :: "string \<Rightarrow> real \<Rightarrow> db_row" where
  "example_stored c p25 =
     \<lparr>col_datetime_utc = example_time, col_city = PStr c, col_lat = PFloat 54.352,
      col_lon = PFloat 18.6466, col_hour_utc = PInt 14, col_minute_utc = PInt 30,
      col_pm25 = PFloat p25, col_pm10 = PFloat 20, col_temperature = PNone,
      col_humidity = PNone, col_pressure = PNone, col_aqi = PNone,
      col_station_id = PInt 3387\<rparr>"

text \<open>The state of \<^verbatim>\<open>migrate_csv\<close> when its loop has read the whole file.\<close>

definition final_state ::
  "pylib \<Rightarrow> int \<Rightarrow> migration_env \<Rightarrow> bool \<Rightarrow> string list list \<Rightarrow> db_row list
     \<Rightarrow> migration_state" where
  "final_state lib dflt env sd lines store =
     migrate_rows lib dflt env sd 0 (DictReader lines) (start_state store)"

text \<open>
  The rows \<open>ins\<close> added to the table \<open>base\<close> hold every identity key at most
  once, and not at all when \<open>base\<close> already answers the probe for it.
\<close>

definition once_per_key :: "db_row list \<Rightarrow> db_row list \<Rightarrow> bool" where
  "once_per_key base ins \<longleftrightarrow>
     (\<forall>dt c. length (filter (key_matches dt c) ins)
               \<le> (if list_ex (key_matches dt c) base then 0 else 1))"

text \<open>
  A migration that reaches its commit, and two migrations of one file in a row, the
  second on the table the first left, both with duplicate detection.
\<close>

definition completes :: "migration_env \<Rightarrow> bool" where
  "completes env \<longleftrightarrow>
     \<not> connect_fails env \<and> \<not> open_fails env \<and> \<not> reader_fails env \<and> \<not> commit_fails env"

definition run_twice ::
  "pylib \<Rightarrow> int \<Rightarrow> migration_env \<Rightarrow> migration_env \<Rightarrow> db_row list
     \<Rightarrow> migration_result \<times> migration_result" where
  "run_twice lib dflt env1 env2 store =
     (let r1 = migrate_csv lib dflt env1 True store
      in (r1, migrate_csv lib dflt env2 True (store_after r1)))"

text \<open>Two example files: one repeats an identity key, one does not.\<close>

definition repeated_key_file :: "string list list" where
  "repeated_key_file =
     [CSV_HEADERS,
      example_row ''2024-05-01 14:30:00'' ''Gdansk'' ''12.0'',
      example_row ''2024-05-01 14:30:00'' ''Gdansk'' ''13.0'']"

definition distinct_key_file :: "string list list" where
  "distinct_key_file =
     [CSV_HEADERS,
      example_row ''2024-05-01 14:30:00'' ''Gdansk'' ''12.0'',
      example_row ''2024-05-01 14:30:00'' ''Sopot'' ''13.0'']"

text \<open>
  The text of the file carries a Measurement when the library functions read back
  what they wrote: the text of the timestamp parses to the timestamp's whole seconds,
  the numbers have a non-empty text that parses to the same number, and a measured
  field is absent or a number.
\<close>

definition reads_back_float :: "pylib \<Rightarrow> real \<Rightarrow> bool" where
  "reads_back_float lib x \<longleftrightarrow>
     py_str lib (PFloat x) \<noteq> [] \<and> py_float lib (py_str lib (PFloat x)) = Some x"

definition reads_back_int :: "pylib \<Rightarrow> int \<Rightarrow> bool" where
  "reads_back_int lib n \<longleftrightarrow>
     py_str lib (PInt n) \<noteq> [] \<and> py_int lib (py_str lib (PInt n)) = Some n"

fun reads_back :: "pylib \<Rightarrow> pyval \<Rightarrow> bool" where
  "reads_back lib PNone = True"
| "reads_back lib (PFloat x) = reads_back_float lib x"
| "reads_back lib (PInt i) =
     (py_str lib (PInt i) \<noteq> [] \<and> py_float lib (py_str lib (PInt i)) = Some (real_of_int i))"
| "reads_back lib v = False"

definition codec_ok :: "pylib \<Rightarrow> Measurement \<Rightarrow> bool" where
  "codec_ok lib m \<longleftrightarrow>
     strptime lib (strftime lib (timestamp m)) = Some (whole_seconds (timestamp m)) \<and>
     reads_back_float lib (latitude m) \<and> reads_back_float lib (longitude m) \<and>
     reads_back_int lib (hour_utc m) \<and> reads_back_int lib (minute_utc m) \<and>
     reads_back lib (pm25 m) \<and> reads_back lib (pm10 m) \<and> reads_back lib (temperature m) \<and>
     reads_back lib (humidity m) \<and> reads_back lib (pressure m) \<and> reads_back lib (aqi m)"

text \<open>
  What the file keeps of a Measurement. A measured number comes back as a float, the
  same number; the timestamp comes back without its part below the second; the
  station id does not come back, the migration's default takes its place.
\<close>

fun as_float :: "pyval \<Rightarrow> pyval" where
  "as_float (PInt i) = PFloat (real_of_int i)"
| "as_float v = v"

definition file_image :: "int \<Rightarrow> Measurement \<Rightarrow> db_row" where
  "file_image dflt m =
     (insert_params m)
       \<lparr>col_datetime_utc := whole_seconds (timestamp m),
        col_pm25 := as_float (pm25 m),
        col_pm10 := as_float (pm10 m),
        col_temperature := as_float (temperature m),
        col_humidity := as_float (humidity m),
        col_pressure := as_float (pressure m),
        col_aqi := as_float (aqi m),
        col_station_id := PInt dflt\<rparr>"


text \<open>The file the sink leaves when it writes one Measurement to a new file.\<close>

definition written_file :: "Measurement \<Rightarrow> string list list option" where
  "written_file m =
     csv (snd (save_to_csv example_lib example_config example_env m empty_world))"

text \<open>Further example inputs: a payload with data in "history" only, a cycle whose
  database fails while its file sink is enabled, and a world whose file exists.\<close>

definition history_payload :: pyval where
  "history_payload =
     PDict [(''current'', PDict [(''values'', PList [])]),
            (''history'',
             PList [PDict [(''values'',
                            PList [PDict [(''name'', PStr ''PM25''), (''value'', PFloat 13)]])],
                    PDict [(''values'', PList [])]])]"

definition failing_database_config :: Config where
  "failing_database_config = example_config\<lparr>enable_csv := True\<rparr>"

definition failing_database_env :: cycle_env where
  "failing_database_env = example_env\<lparr>db_execute_fails := True\<rparr>"

definition existing_file_world :: world where
  "existing_file_world = empty_world\<lparr>csv := Some [[''kept'']]\<rparr>"

text \<open>
  Measurements outside the annotated type: a payload whose PM25 value is a text, the
  Measurement the normalizer builds from it, and a Measurement whose \<^verbatim>\<open>pm25\<close> is an
  integer beyond the range of a float.
\<close>

definition text_payload :: pyval where
  "text_payload =
     PDict [(''current'',
             PDict [(''values'',
                     PList [PDict [(''name'', PStr ''PM25''), (''value'', PStr ''high'')],
                            PDict [(''name'', PStr ''PM10''), (''value'', PFloat 20)]]),
                    (''indexes'', PList [])])]"

definition text_measurement :: Measurement where
  "text_measurement = example_measurement\<lparr>pm25 := PStr ''high''\<rparr>"

definition text_env :: cycle_env where
  "text_env = example_env\<lparr>airly_response := Some text_payload\<rparr>"


text \<open>
  What the normalizer makes of a source. \<open>section_values s\<close> is the values list of
  the section \<open>s\<close>, empty when it has none. A source is well formed when it is an
  object, its "values" is a list or is missing, the entries of the list are
  well-formed, and so is "indexes". \<open>source_measurement cfg t s\<close> is the Measurement
  built from the source \<open>s\<close> alone, with the configuration and the time of the cycle.
\<close>

definition section_values :: "pyval \<Rightarrow> pyval list" where
  "section_values s = (case member s ''values'' of PList vs \<Rightarrow> vs | _ \<Rightarrow> [])"

definition values_ok :: "pyval \<Rightarrow> bool" where
  "values_ok s \<longleftrightarrow>
     (case member s ''values'' of
        PList vs \<Rightarrow> True
      | PNone \<Rightarrow> \<not> has_key s ''values''
      | _ \<Rightarrow> False)"

definition source_ok :: "pyval \<Rightarrow> bool" where
  "source_ok s \<longleftrightarrow>
     is_dict s \<and> values_ok s \<and> list_all entry_ok (section_values s) \<and> indexes_ok s"

definition source_measurement :: "Config \<Rightarrow> datetime \<Rightarrow> pyval \<Rightarrow> Measurement" where
  "source_measurement cfg t s =
     \<lparr>timestamp = t,
      city = city_name cfg,
      latitude = cfg_latitude cfg,
      longitude = cfg_longitude cfg,
      pm25 = last_value (section_values s) ''PM25'',
      pm10 = last_value (section_values s) ''PM10'',
      temperature = last_value (section_values s) ''TEMPERATURE'',
      humidity = last_value (section_values s) ''HUMIDITY'',
      pressure = last_value (section_values s) ''PRESSURE'',
      aqi = first_index_value s,
      station_id = Some (installation_id cfg)\<rparr>"

text \<open>An example payload with different data in "current" and in "history".\<close>

definition both_payload :: pyval where
  "both_payload =
     PDict [(''current'',
             PDict [(''values'',
                     PList [PDict [(''name'', PStr ''PM25''), (''value'', PFloat 12.5)],
                            PDict [(''name'', PStr ''PM10''), (''value'', PFloat 20)]])]),
            (''history'',
             PList [PDict [(''values'',
                            PList [PDict [(''name'', PStr ''PM25''), (''value'', PFloat 13)]])]])]"

section \<open>Properties of the collection cycle\<close>

lemma whole_seconds_idem [simp]: "microsecond t = 0 \<Longrightarrow> whole_seconds t = t"
  by (simp add: whole_seconds_def)

lemma example_parse:
  "parse_measurement example_config example_time example_payload
     = Inr (Some example_measurement)"
  by (simp add: parse_measurement_def example_payload_def select_source_def py_bind_def
      py_get_def py_iter_def py_item_def extract_aqi_def dict_get_def
      example_measurement_def example_config_def)

lemma forwardable_iff:
  "forwardable lib m \<longleftrightarrow> (\<exists>p. times_0_7 lib (or_zero (pm25 m)) = Inr p)"
  by (cases "or_zero (pm25 m)")
    (auto simp: forwardable_def float_of_def times_0_7_def split: option.splits)

lemma optional_float_forwardable: "optional_float (pm25 m) \<Longrightarrow> forwardable lib m"
  by (cases "pm25 m") (simp_all add: forwardable_def float_of_def or_zero_def to_float_def)

text \<open>
  The fan-out: it raises when the file sink is enabled and \<^verbatim>\<open>os.makedirs\<close> fails,
  or else when the forwarding sink is enabled, has an endpoint and cannot build its
  payload; otherwise it returns the conjunction of the enabled sinks among database
  and file. The result of a sink does not depend on the world it runs in, so \<open>w1\<close>
  and \<open>w2\<close> are arbitrary.
\<close>

lemma deliver_result:
  "fst (deliver lib cfg env m w) =
     (if enable_csv cfg \<and> fst (save_to_csv lib cfg env m w2) = Inl OSError then Inl OSError
      else
        (case (if enable_hsbi cfg \<and> hsbi_api_url cfg \<noteq> []
               then times_0_7 lib (or_zero (pm25 m)) else Inr PNone) of
           Inl e \<Rightarrow> Inl e
         | Inr p \<Rightarrow>
             Inr ((enable_database cfg \<longrightarrow> fst (save_to_database env m w1)) \<and>
                  (enable_csv cfg \<longrightarrow> fst (save_to_csv lib cfg env m w2) = Inr True))))"
proof (cases "times_0_7 lib (or_zero (pm25 m))")
  case (Inl e)
  then have h: "hsbi_payload lib cfg m = Inl e"
    by (simp add: hsbi_payload_def py_bind_def)
  show ?thesis
    by (simp add: deliver_def save_to_database_def save_to_csv_def send_to_hsbi_def h Inl Let_def
         split: prod.splits sum.splits)
next
  case (Inr q)
  then obtain p where h: "hsbi_payload lib cfg m = Inr p"
    by (simp add: hsbi_payload_def py_bind_def)
  show ?thesis
    by (simp add: deliver_def save_to_database_def save_to_csv_def send_to_hsbi_def h Inr Let_def
         split: prod.splits sum.splits)
qed

lemma send_to_hsbi_result:
  "fst (send_to_hsbi lib cfg env m w) =
     (if hsbi_api_url cfg = [] then Inr False
      else
        (case times_0_7 lib (or_zero (pm25 m)) of
           Inl e \<Rightarrow> Inl e
         | Inr p \<Rightarrow> Inr (\<not> hsbi_post_fails env)))"
proof (cases "times_0_7 lib (or_zero (pm25 m))")
  case (Inl e)
  then have h: "hsbi_payload lib cfg m = Inl e"
    by (simp add: hsbi_payload_def py_bind_def)
  show ?thesis
    by (simp add: send_to_hsbi_def h Inl Let_def)
next
  case (Inr q)
  then obtain p where h: "hsbi_payload lib cfg m = Inr p"
    by (simp add: hsbi_payload_def py_bind_def)
  show ?thesis
    by (simp add: send_to_hsbi_def h Inr Let_def)
qed

lemma deliver_returns:
  assumes "fst (deliver lib cfg env m w) = Inr b"
  shows "b \<longleftrightarrow> (enable_database cfg \<longrightarrow> fst (save_to_database env m w1)) \<and>
               (enable_csv cfg \<longrightarrow> fst (save_to_csv lib cfg env m w2) = Inr True)"
proof -
  define C where "C \<longleftrightarrow> enable_csv cfg \<and> fst (save_to_csv lib cfg env m w2) = Inl OSError"
  define H where "H \<longleftrightarrow> enable_hsbi cfg \<and> hsbi_api_url cfg \<noteq> []"
  define B where "B \<longleftrightarrow> (enable_database cfg \<longrightarrow> fst (save_to_database env m w1)) \<and>
               (enable_csv cfg \<longrightarrow> fst (save_to_csv lib cfg env m w2) = Inr True)"
  have d: "fst (deliver lib cfg env m w) =
     (if C then Inl OSError
      else (case (if H then times_0_7 lib (or_zero (pm25 m)) else Inr PNone) of
              Inl e \<Rightarrow> Inl e | Inr p \<Rightarrow> Inr B))"
    unfolding C_def H_def B_def by (rule deliver_result)
  have "b = B"
    using assms unfolding d
    by (cases C; cases H; cases "times_0_7 lib (or_zero (pm25 m))") simp_all
  then show ?thesis by (simp add: B_def)
qed

lemma deliver_forwardable:
  assumes "\<not> (enable_hsbi cfg \<and> hsbi_api_url cfg \<noteq> []) \<or> forwardable lib m"
  shows "fst (deliver lib cfg env m w) =
     (if enable_csv cfg \<and> fst (save_to_csv lib cfg env m w2) = Inl OSError then Inl OSError
      else Inr ((enable_database cfg \<longrightarrow> fst (save_to_database env m w1)) \<and>
                (enable_csv cfg \<longrightarrow> fst (save_to_csv lib cfg env m w2) = Inr True)))"
proof -
  define C where "C \<longleftrightarrow> enable_csv cfg \<and> fst (save_to_csv lib cfg env m w2) = Inl OSError"
  define H where "H \<longleftrightarrow> enable_hsbi cfg \<and> hsbi_api_url cfg \<noteq> []"
  define B where "B \<longleftrightarrow> (enable_database cfg \<longrightarrow> fst (save_to_database env m w1)) \<and>
               (enable_csv cfg \<longrightarrow> fst (save_to_csv lib cfg env m w2) = Inr True)"
  have d: "fst (deliver lib cfg env m w) =
     (if C then Inl OSError
      else (case (if H then times_0_7 lib (or_zero (pm25 m)) else Inr PNone) of
              Inl e \<Rightarrow> Inl e | Inr p \<Rightarrow> Inr B))"
    unfolding C_def H_def B_def by (rule deliver_result)
  have "H \<Longrightarrow> \<exists>p. times_0_7 lib (or_zero (pm25 m)) = Inr p"
    using assms forwardable_iff unfolding H_def by blast
  then have "fst (deliver lib cfg env m w) = (if C then Inl OSError else Inr B)"
    unfolding d by (cases H) auto
  then show ?thesis by (simp add: C_def B_def)
qed

lemma deliver_post_outcome:
  "fst (deliver lib cfg (env\<lparr>hsbi_post_fails := f\<rparr>) m w) = fst (deliver lib cfg env m w)"
proof -
  have s: "fst (save_to_csv lib cfg (env\<lparr>hsbi_post_fails := f\<rparr>) m w)
             = fst (save_to_csv lib cfg env m w)"
    "fst (save_to_database (env\<lparr>hsbi_post_fails := f\<rparr>) m w) = fst (save_to_database env m w)"
    by (simp_all add: save_to_csv_def save_to_database_def Let_def)
  show ?thesis
    by (simp only: deliver_result [of lib cfg _ m w w w] s)
qed

text \<open>
  C1, amended. In a cycle that obtained a Measurement \<open>m\<close>: when the cycle returns
  \<^verbatim>\<open>True\<close>, every enabled sink among database and file returned \<^verbatim>\<open>True\<close>; the
  outcome of the POST of the forwarding sink never changes the result of the cycle;
  and when the database sink succeeds, the file sink is disabled and the forwarding
  sink returns \<^verbatim>\<open>False\<close>, the cycle returns \<^verbatim>\<open>True\<close>. A Measurement of the annotated
  type (\<^verbatim>\<open>pm25\<close> absent or a float) is \<open>forwardable\<close>: the forwarding payload can be
  built from it. For a forwardable Measurement the cycle returns \<^verbatim>\<open>True\<close> exactly when
  every enabled sink among database and file returned \<^verbatim>\<open>True\<close>, the result is the same
  whether or not the forwarding sink is enabled, configured or failing, and when the
  database sink fails and the file sink succeeds the cycle returns \<^verbatim>\<open>False\<close>.
\<close>

theorem collect_once_outcome:
  assumes "fetch_from_airly cfg env = Some data" and "truthy data"
    and "parse_measurement cfg (now env) data = Inr (Some m)"
  shows "(fst (collect_once lib cfg env w) = Inr True \<longrightarrow>
            (enable_database cfg \<longrightarrow> fst (save_to_database env m w1)) \<and>
            (enable_csv cfg \<longrightarrow> fst (save_to_csv lib cfg env m w2) = Inr True)) \<and>
         fst (collect_once lib cfg (env\<lparr>hsbi_post_fails := f\<rparr>) w)
           = fst (collect_once lib cfg env w) \<and>
         (enable_database cfg \<and> fst (save_to_database env m w1) \<and> \<not> enable_csv cfg \<and>
          enable_hsbi cfg \<and> fst (send_to_hsbi lib cfg env m w3) = Inr False
            \<longrightarrow> fst (collect_once lib cfg env w) = Inr True) \<and>
         (optional_float (pm25 m) \<longrightarrow> forwardable lib m) \<and>
         (forwardable lib m \<longrightarrow>
            ((fst (collect_once lib cfg env w) = Inr True) =
               ((enable_database cfg \<longrightarrow> fst (save_to_database env m w1)) \<and>
                (enable_csv cfg \<longrightarrow> fst (save_to_csv lib cfg env m w2) = Inr True))) \<and>
            fst (collect_once lib (cfg\<lparr>enable_hsbi := e, hsbi_api_url := u\<rparr>)
                   (env\<lparr>hsbi_post_fails := f\<rparr>) w) = fst (collect_once lib cfg env w) \<and>
            (enable_database cfg \<and> \<not> fst (save_to_database env m w1) \<and> enable_csv cfg \<and>
             fst (save_to_csv lib cfg env m w2) = Inr True
               \<longrightarrow> fst (collect_once lib cfg env w) = Inr False))"
proof -
  let ?cfg' = "cfg\<lparr>enable_hsbi := e, hsbi_api_url := u\<rparr>"
  let ?env' = "env\<lparr>hsbi_post_fails := f\<rparr>"
  let ?B = "(enable_database cfg \<longrightarrow> fst (save_to_database env m w1)) \<and>
            (enable_csv cfg \<longrightarrow> fst (save_to_csv lib cfg env m w2) = Inr True)"
  have c: "collect_once lib cfg env w = deliver lib cfg env m w"
    using assms by (simp add: collect_once_def)
  have fa: "fetch_from_airly cfg ?env' = Some data" "fetch_from_airly ?cfg' ?env' = Some data"
    using assms(1) by (simp_all add: fetch_from_airly_def split: if_splits)
  have "parse_measurement ?cfg' (now ?env') data = parse_measurement cfg (now env) data"
    by (simp add: parse_measurement_def cong: if_cong)
  then have pa: "parse_measurement ?cfg' (now ?env') data = Inr (Some m)"
    "parse_measurement cfg (now ?env') data = Inr (Some m)"
    using assms(3) by simp_all
  have c': "collect_once lib ?cfg' ?env' w = deliver lib ?cfg' ?env' m w"
    using assms(2) fa(2) pa(1) by (simp add: collect_once_def)
  have c'': "collect_once lib cfg ?env' w = deliver lib cfg ?env' m w"
    using assms(2) fa(1) pa(2) by (simp add: collect_once_def)
  have 1: "fst (collect_once lib cfg env w) = Inr True \<longrightarrow> ?B"
    unfolding c using deliver_returns [of lib cfg env m w True w1 w2] by blast
  have 2: "fst (collect_once lib cfg ?env' w) = fst (collect_once lib cfg env w)"
    unfolding c c'' by (rule deliver_post_outcome)
  have 3: "fst (collect_once lib cfg env w) = Inr True"
    if h: "enable_database cfg" "fst (save_to_database env m w1)" "\<not> enable_csv cfg"
      "enable_hsbi cfg" "fst (send_to_hsbi lib cfg env m w3) = Inr False"
  proof -
    have "\<not> (enable_hsbi cfg \<and> hsbi_api_url cfg \<noteq> []) \<or> forwardable lib m"
    proof (cases "hsbi_api_url cfg = []")
      case True
      then show ?thesis by simp
    next
      case False
      then obtain p where "times_0_7 lib (or_zero (pm25 m)) = Inr p"
        using h(5) by (cases "times_0_7 lib (or_zero (pm25 m))")
          (simp_all add: send_to_hsbi_result)
      then show ?thesis using forwardable_iff by blast
    qed
    from deliver_forwardable [OF this, of env w w2 w1] show ?thesis
      unfolding c using h(1,2,3) by simp
  qed
  have 4: "optional_float (pm25 m) \<longrightarrow> forwardable lib m"
    using optional_float_forwardable by blast
  have 5: "((fst (collect_once lib cfg env w) = Inr True) = ?B) \<and>
            fst (collect_once lib ?cfg' ?env' w) = fst (collect_once lib cfg env w) \<and>
            (enable_database cfg \<and> \<not> fst (save_to_database env m w1) \<and> enable_csv cfg \<and>
             fst (save_to_csv lib cfg env m w2) = Inr True
               \<longrightarrow> fst (collect_once lib cfg env w) = Inr False)"
    if fw: "forwardable lib m"
  proof -
    have d: "fst (deliver lib cfg env m w) =
       (if enable_csv cfg \<and> fst (save_to_csv lib cfg env m w2) = Inl OSError then Inl OSError
        else Inr ?B)"
      by (rule deliver_forwardable) (simp add: fw)
    have d': "fst (deliver lib ?cfg' ?env' m w) =
       (if enable_csv ?cfg' \<and> fst (save_to_csv lib ?cfg' ?env' m w2) = Inl OSError
        then Inl OSError
        else Inr ((enable_database ?cfg' \<longrightarrow> fst (save_to_database ?env' m w1)) \<and>
                  (enable_csv ?cfg' \<longrightarrow> fst (save_to_csv lib ?cfg' ?env' m w2) = Inr True)))"
      by (rule deliver_forwardable) (simp add: fw)
    have s: "fst (save_to_csv lib ?cfg' ?env' m w2) = fst (save_to_csv lib cfg env m w2)"
      "fst (save_to_database ?env' m w1) = fst (save_to_database env m w1)"
      by (simp_all add: save_to_csv_def save_to_database_def Let_def)
    have a: "(fst (collect_once lib cfg env w) = Inr True) = ?B"
      unfolding c d by auto
    have b: "fst (collect_once lib ?cfg' ?env' w) = fst (collect_once lib cfg env w)"
      unfolding c c' d d' s by simp
    have g: "enable_database cfg \<and> \<not> fst (save_to_database env m w1) \<and> enable_csv cfg \<and>
             fst (save_to_csv lib cfg env m w2) = Inr True
               \<longrightarrow> fst (collect_once lib cfg env w) = Inr False"
      unfolding c d by auto
    show ?thesis using a b g by blast
  qed
  show ?thesis using 1 2 3 4 5 by blast
qed

theorem collect_once_outcome_witness:
  "fetch_from_airly example_config example_env = Some example_payload \<and>
   truthy example_payload \<and>
   parse_measurement example_config (now example_env) example_payload
     = Inr (Some example_measurement) \<and>
   forwardable example_lib example_measurement \<and>
   enable_database example_config \<and>
   fst (save_to_database example_env example_measurement empty_world) \<and>
   \<not> enable_csv example_config \<and>
   enable_hsbi example_config \<and>
   fst (send_to_hsbi example_lib example_config example_env example_measurement empty_world)
     = Inr False \<and>
   fst (collect_once example_lib example_config example_env empty_world) = Inr True \<and>
   enable_database failing_database_config \<and>
   \<not> fst (save_to_database failing_database_env example_measurement empty_world) \<and>
   enable_csv failing_database_config \<and>
   fst (save_to_csv example_lib failing_database_config failing_database_env
          example_measurement empty_world) = Inr True \<and>
   fst (collect_once example_lib failing_database_config failing_database_env empty_world)
     = Inr False"
proof -
  have f: "fetch_from_airly example_config example_env = Some example_payload"
    by (simp add: fetch_from_airly_def example_config_def example_env_def)
  have t: "truthy example_payload"
    by (simp add: example_payload_def)
  have p: "parse_measurement example_config (now example_env) example_payload
             = Inr (Some example_measurement)"
    using example_parse by (simp add: example_env_def)
  have w: "forwardable example_lib example_measurement"
    by (simp add: forwardable_def float_of_def or_zero_def example_measurement_def)
  have db: "fst (save_to_database example_env example_measurement empty_world)"
    by (simp add: save_to_database_def example_env_def Let_def)
  have e: "enable_database example_config" "\<not> enable_csv example_config"
    "enable_hsbi example_config"
    by (simp_all add: example_config_def)
  have h: "fst (send_to_hsbi example_lib example_config example_env example_measurement
             empty_world) = Inr False"
    by (simp add: send_to_hsbi_result times_0_7_def or_zero_def
        example_measurement_def example_env_def example_config_def)
  have f': "fetch_from_airly failing_database_config failing_database_env = Some example_payload"
    by (simp add: fetch_from_airly_def failing_database_config_def failing_database_env_def
        example_config_def example_env_def)
  have p': "parse_measurement failing_database_config (now failing_database_env) example_payload
             = Inr (Some example_measurement)"
    using example_parse
    by (simp add: parse_measurement_def failing_database_config_def failing_database_env_def
        example_env_def cong: if_cong)
  have db': "\<not> fst (save_to_database failing_database_env example_measurement empty_world)"
    by (simp add: save_to_database_def failing_database_env_def Let_def)
  have e': "enable_database failing_database_config" "enable_csv failing_database_config"
    by (simp_all add: failing_database_config_def example_config_def)
  have c': "fst (save_to_csv example_lib failing_database_config failing_database_env
          example_measurement empty_world) = Inr True"
    by (simp add: save_to_csv_def failing_database_env_def example_env_def Let_def)
  show ?thesis
    using collect_once_outcome [OF f t p, of example_lib empty_world empty_world empty_world]
      collect_once_outcome [OF f' t p', of example_lib empty_world empty_world empty_world]
      f t p w db e h db' e' c'
    by simp
qed

lemma text_parse:
  "parse_measurement example_config example_time text_payload = Inr (Some text_measurement)"
  by (simp add: parse_measurement_def text_payload_def select_source_def py_bind_def
      py_get_def py_iter_def py_item_def extract_aqi_def dict_get_def
      text_measurement_def example_measurement_def example_config_def)

text \<open>
  C1 as stated, for every Measurement, fails on a Measurement the normalizer builds
  from a provider value that is a string: \<^verbatim>\<open>(measurement.pm25 or 0) * 0.7\<close> raises
  \<^verbatim>\<open>TypeError\<close> outside the \<^verbatim>\<open>try\<close> of the forwarding sink, so the cycle raises
  although the database sink succeeded and the file sink is disabled; with the
  forwarding sink disabled the same cycle returns \<^verbatim>\<open>True\<close>.
\<close>

theorem collect_once_outcome_counterexample:
  "fetch_from_airly example_config text_env = Some text_payload \<and>
   parse_measurement example_config (now text_env) text_payload = Inr (Some text_measurement) \<and>
   fst (save_to_database text_env text_measurement empty_world) \<and>
   \<not> enable_csv example_config \<and>
   fst (collect_once example_lib example_config text_env empty_world) = Inl TypeError \<and>
   fst (collect_once example_lib (example_config\<lparr>enable_hsbi := False\<rparr>) text_env empty_world)
     = Inr True"
proof -
  have f: "fetch_from_airly example_config text_env = Some text_payload"
    "fetch_from_airly (example_config\<lparr>enable_hsbi := False\<rparr>) text_env = Some text_payload"
    by (simp_all add: fetch_from_airly_def example_config_def text_env_def example_env_def)
  have t: "truthy text_payload"
    by (simp add: text_payload_def)
  have n: "now text_env = example_time"
    by (simp add: text_env_def example_env_def)
  have p: "parse_measurement example_config (now text_env) text_payload
             = Inr (Some text_measurement)"
    by (simp add: n text_parse)
  have "parse_measurement (example_config\<lparr>enable_hsbi := False\<rparr>) (now text_env) text_payload
          = parse_measurement example_config (now text_env) text_payload"
    by (simp add: parse_measurement_def cong: if_cong)
  then have p': "parse_measurement (example_config\<lparr>enable_hsbi := False\<rparr>) (now text_env)
                   text_payload = Inr (Some text_measurement)"
    using p by simp
  have db: "fst (save_to_database text_env text_measurement empty_world)"
    by (simp add: save_to_database_def text_env_def example_env_def Let_def)
  have e: "\<not> enable_csv example_config"
    by (simp add: example_config_def)
  have x: "times_0_7 example_lib (or_zero (pm25 text_measurement)) = Inl TypeError"
    by (simp add: times_0_7_def or_zero_def text_measurement_def)
  have c1: "fst (collect_once example_lib example_config text_env empty_world) = Inl TypeError"
    using f(1) t p
    by (simp add: collect_once_def deliver_result [where ?w1.0 = empty_world and ?w2.0 = empty_world] x)
      (simp add: example_config_def)
  have c2: "fst (collect_once example_lib (example_config\<lparr>enable_hsbi := False\<rparr>) text_env
              empty_world) = Inr True"
    using f(2) t p' db
    by (simp add: collect_once_def
        deliver_result [where ?w1.0 = empty_world and ?w2.0 = empty_world])
      (simp add: example_config_def)
  show ?thesis using f(1) p db e c1 c2 by simp
qed

section \<open>Properties of the normalizer\<close>

lemma py_get_member: "is_dict x \<Longrightarrow> py_get x k PNone = Inr (member x k)"
  by (cases x) (simp_all add: py_get_def member_def)

lemma carries_values_truthy:
  "section_ok s \<Longrightarrow> carries_values s \<longleftrightarrow> truthy s \<and> truthy (member s ''values'')"
  apply (cases s)
  apply (auto simp: section_ok_def carries_values_def member_def split: option.splits pyval.splits list.splits)
  done

lemma select_source_eq:
  assumes "provider_payload data"
  shows "select_source data =
     Inr (if carries_values (member data ''current'') then member data ''current''
          else (case member data ''history'' of PList (h # hs) \<Rightarrow> h | _ \<Rightarrow> PNone))"
proof -
  let ?cur = "member data ''current''"
  let ?hist = "member data ''history''"
  have d: "is_dict data" and s: "section_ok ?cur" and h: "list_or_absent ?hist"
    using assms by (simp_all add: provider_payload_def)
  have g1: "py_get data ''current'' PNone = Inr ?cur" and g2: "py_get data ''history'' PNone = Inr ?hist"
    using d by (simp_all add: py_get_member)
  have cv: "carries_values ?cur \<longleftrightarrow> truthy ?cur \<and> truthy (member ?cur ''values'')"
    by (rule carries_values_truthy [OF s])
  have g3: "truthy ?cur \<Longrightarrow> py_get ?cur ''values'' PNone = Inr (member ?cur ''values'')"
    using s by (auto simp: section_ok_def py_get_member)
  show ?thesis
  proof (cases "truthy ?cur")
    case True
    then show ?thesis
      using h by (cases ?hist) (auto simp: select_source_def g1 g2 g3 cv py_bind_def py_len_def py_first_def split: list.splits)
  next
    case False
    then show ?thesis
      using h by (cases ?hist) (auto simp: select_source_def g1 g2 cv py_bind_def py_len_def py_first_def split: list.splits)
  qed
qed

lemma entry_ok_items:
  assumes "entry_ok e"
  shows "\<exists>n. py_item e ''name'' = Inr (PStr n) \<and> member e ''name'' = PStr n \<and>
             py_item e ''value'' = Inr (member e ''value'')"
proof -
  obtain n where n: "member e ''name'' = PStr n"
    using assms by (cases "member e ''name''") (simp_all add: entry_ok_def)
  obtain kvs where e: "e = PDict kvs"
    using assms by (cases e) (simp_all add: entry_ok_def has_key_def)
  have "py_item e ''name'' = Inr (PStr n)"
    using n unfolding e by (auto simp: py_item_def member_def split: option.splits)
  moreover have "py_item e ''value'' = Inr (member e ''value'')"
    using assms unfolding e by (auto simp: entry_ok_def has_key_def py_item_def member_def)
  ultimately show ?thesis using n by blast
qed

lemma collect_values_lookup:
  assumes "list_all entry_ok vs"
  shows "\<exists>values. collect_values vs init = Inr values \<and>
           (\<forall>n. values (PStr n) =
              (case filter (named n) vs of
                 [] \<Rightarrow> init (PStr n)
               | e # es \<Rightarrow> Some (member (last (e # es)) ''value'')))"
  using assms
proof (induction vs arbitrary: init)
  case Nil
  then show ?case by simp
next
  case (Cons e vs)
  from Cons.prems have ok: "entry_ok e" and rest: "list_all entry_ok vs" by simp_all
  obtain ne where ne: "py_item e ''name'' = Inr (PStr ne)" "member e ''name'' = PStr ne"
    "py_item e ''value'' = Inr (member e ''value'')"
    using entry_ok_items [OF ok] by blast
  let ?init' = "init(PStr ne \<mapsto> member e ''value'')"
  obtain vals where v: "collect_values vs ?init' = Inr vals"
    and l: "\<And>n. vals (PStr n) =
              (case filter (named n) vs of
                 [] \<Rightarrow> ?init' (PStr n)
               | e # es \<Rightarrow> Some (member (last (e # es)) ''value''))"
    using Cons.IH [OF rest, of ?init'] by blast
  have c: "collect_values (e # vs) init = Inr vals"
    by (simp add: ne py_bind_def v)
  have "vals (PStr n) =
          (case filter (named n) (e # vs) of
             [] \<Rightarrow> init (PStr n)
           | e # es \<Rightarrow> Some (member (last (e # es)) ''value''))" for n
    by (cases "filter (named n) vs") (auto simp: l named_def ne)
  with c show ?case by blast
qed

lemma collect_values_last_value:
  assumes "list_all entry_ok vs"
  shows "\<exists>values. collect_values vs Map.empty = Inr values \<and>
           (\<forall>n. dict_get values (PStr n) = last_value vs n)"
proof -
  obtain vals where v: "collect_values vs Map.empty = Inr vals"
    and l: "\<And>n. vals (PStr n) =
              (case filter (named n) vs of
                 [] \<Rightarrow> None
               | e # es \<Rightarrow> Some (member (last (e # es)) ''value''))"
    using collect_values_lookup [OF assms, of Map.empty] by auto
  have "dict_get vals (PStr n) = last_value vs n" for n
    by (simp add: dict_get_def last_value_def l split: list.splits)
  with v show ?thesis by blast
qed

lemma last_value_last_occurrence:
  assumes "named n e" and "\<not> list_ex (named n) post"
  shows "last_value (pre @ e # post) n = member e ''value''"
proof -
  have "filter (named n) post = []"
    using assms(2) by (simp add: list_ex_iff filter_empty_conv)
  then have "filter (named n) (pre @ e # post) = filter (named n) pre @ [e]"
    using assms(1) by simp
  then show ?thesis
    by (cases "filter (named n) pre") (simp_all add: last_value_def)
qed

lemma extract_aqi_first:
  assumes "is_dict source" and "indexes_ok source"
  shows "extract_aqi source = Inr (first_index_value source)"
proof -
  obtain kvs where s: "source = PDict kvs"
    using assms(1) by (cases source) simp_all
  show ?thesis
    using assms(2) unfolding s
    by (auto simp: extract_aqi_def indexes_ok_def first_index_value_def member_def py_get_def
        py_bind_def py_first_def
        split: option.splits pyval.splits list.splits)
qed

text \<open>
  C8. When the selected source is an object whose values list holds well-formed
  entries, the loop builds a dictionary in which every name maps to the value of its
  last entry; the air-quality index is the value of the first entry of "indexes", and
  \<open>PNone\<close>, without an error, when there is none; and the Measurement takes its
  five measured fields from the names PM25, PM10, TEMPERATURE, HUMIDITY and PRESSURE
  only: entries of any other name raise nothing and reach no field.
\<close>

theorem flatten_values:
  assumes "truthy data" and "select_source data = Inr source"
    and "is_dict source" and "truthy source"
    and "member source ''values'' = PList vs" and "list_all entry_ok vs"
    and "indexes_ok source"
  shows "(\<exists>values. collect_values vs Map.empty = Inr values \<and>
            (\<forall>n. dict_get values (PStr n) = last_value vs n)) \<and>
         (\<forall>n e pre post. vs = pre @ e # post \<and> named n e \<and> \<not> list_ex (named n) post
            \<longrightarrow> last_value vs n = member e ''value'') \<and>
         extract_aqi source = Inr (first_index_value source) \<and>
         parse_measurement cfg t data =
           Inr (Some \<lparr>timestamp = t,
                      city = city_name cfg,
                      latitude = cfg_latitude cfg,
                      longitude = cfg_longitude cfg,
                      pm25 = last_value vs ''PM25'',
                      pm10 = last_value vs ''PM10'',
                      temperature = last_value vs ''TEMPERATURE'',
                      humidity = last_value vs ''HUMIDITY'',
                      pressure = last_value vs ''PRESSURE'',
                      aqi = first_index_value source,
                      station_id = Some (installation_id cfg)\<rparr>)"
proof -
  obtain vals where v: "collect_values vs Map.empty = Inr vals"
    and l: "\<And>n. dict_get vals (PStr n) = last_value vs n"
    using collect_values_last_value [OF assms(6)] by blast
  have a: "extract_aqi source = Inr (first_index_value source)"
    by (rule extract_aqi_first [OF assms(3,7)])
  obtain kvs where s: "source = PDict kvs"
    using assms(3) by (cases source) simp_all
  have g: "py_get source ''values'' (PList []) = Inr (PList vs)"
    using assms(5) unfolding s by (auto simp: py_get_def member_def split: option.splits)
  have p: "parse_measurement cfg t data =
           Inr (Some \<lparr>timestamp = t,
                      city = city_name cfg,
                      latitude = cfg_latitude cfg,
                      longitude = cfg_longitude cfg,
                      pm25 = last_value vs ''PM25'',
                      pm10 = last_value vs ''PM10'',
                      temperature = last_value vs ''TEMPERATURE'',
                      humidity = last_value vs ''HUMIDITY'',
                      pressure = last_value vs ''PRESSURE'',
                      aqi = first_index_value source,
                      station_id = Some (installation_id cfg)\<rparr>)"
    using assms(1,4)
    by (simp add: parse_measurement_def assms(2) g py_iter_def v a l py_bind_def)
  show ?thesis
    using v l a p last_value_last_occurrence by blast
qed

theorem flatten_values_witness:
  "truthy repeated_payload \<and>
   select_source repeated_payload = Inr (member repeated_payload ''current'') \<and>
   is_dict (member repeated_payload ''current'') \<and>
   truthy (member repeated_payload ''current'') \<and>
   member (member repeated_payload ''current'') ''values'' = PList repeated_values \<and>
   list_all entry_ok repeated_values \<and>
   indexes_ok (member repeated_payload ''current'') \<and>
   parse_measurement example_config example_time repeated_payload =
     Inr (Some (example_measurement\<lparr>pm25 := PFloat 13, pm10 := PNone, aqi := PFloat 35.5\<rparr>))"
proof -
  let ?src = "member repeated_payload ''current''"
  have a: "truthy repeated_payload"
    by (simp add: repeated_payload_def)
  have b: "select_source repeated_payload = Inr ?src"
    by (simp add: repeated_payload_def select_source_def member_def py_get_def py_bind_def)
  have c: "is_dict ?src" "truthy ?src"
    by (simp_all add: repeated_payload_def member_def)
  have d: "member ?src ''values'' = PList repeated_values"
    by (simp add: repeated_payload_def member_def repeated_values_def)
  have e: "list_all entry_ok repeated_values"
    by (simp add: repeated_values_def entry_ok_def member_def has_key_def)
  have f: "indexes_ok ?src"
    by (simp add: repeated_payload_def member_def indexes_ok_def)
  have g: "last_value repeated_values ''PM25'' = PFloat 13"
    "last_value repeated_values ''PM10'' = PNone"
    "last_value repeated_values ''TEMPERATURE'' = PNone"
    "last_value repeated_values ''HUMIDITY'' = PNone"
    "last_value repeated_values ''PRESSURE'' = PNone"
    by (simp_all add: last_value_def repeated_values_def named_def member_def)
  have h: "first_index_value ?src = PFloat 35.5"
    by (simp add: first_index_value_def repeated_payload_def member_def)
  show ?thesis
    using flatten_values [OF a b c d e f, of example_config example_time] a b c d e f
    by (simp add: g h example_measurement_def example_config_def)
qed

lemma member_truthy: "member x k \<noteq> PNone \<Longrightarrow> truthy x"
  by (cases x) (auto simp: member_def)

lemma source_values:
  assumes "is_dict s" and "values_ok s"
  shows "py_get s ''values'' (PList []) = Inr (PList (section_values s))"
proof -
  obtain kvs where s: "s = PDict kvs"
    using assms(1) by (cases s) simp_all
  show ?thesis
    using assms(2) unfolding s
    by (auto simp: values_ok_def section_values_def py_get_def member_def has_key_def
        split: option.splits pyval.splits)
qed

lemma parse_of_source:
  assumes "truthy data" and "select_source data = Inr s" and "truthy s" and "source_ok s"
  shows "parse_measurement cfg t data = Inr (Some (source_measurement cfg t s))"
proof -
  have d: "is_dict s" and v: "values_ok s" and e: "list_all entry_ok (section_values s)"
    and i: "indexes_ok s"
    using assms(4) by (simp_all add: source_ok_def)
  obtain vals where c: "collect_values (section_values s) Map.empty = Inr vals"
    and l: "\<And>n. dict_get vals (PStr n) = last_value (section_values s) n"
    using collect_values_last_value [OF e] by blast
  have a: "extract_aqi s = Inr (first_index_value s)"
    by (rule extract_aqi_first [OF d i])
  show ?thesis
    using assms(1,3)
    by (simp add: parse_measurement_def assms(2) source_values [OF d v] py_iter_def c a l
        py_bind_def source_measurement_def)
qed

lemma parse_no_source:
  assumes "select_source data = Inr s" and "\<not> truthy s"
  shows "parse_measurement cfg t data = Inr None"
  using assms by (simp add: parse_measurement_def py_bind_def)

text \<open>
  C3. On every provider payload the normalizer selects "current" when it carries a
  non-empty values list, whatever "history" holds, and the Measurement it returns is
  the one built from "current"; otherwise it selects the first element of a non-empty
  "history" list, and the Measurement it returns is the one built from that element
  (no data when the element is empty); when there is neither, \<open>parse_measurement\<close>
  returns \<open>None\<close> (no data, not an exception), \<open>collect_once\<close> returns
  \<open>False\<close> and leaves the world as it was: no sink is invoked. A Measurement is
  built from a selected source that is well formed.
\<close>

theorem source_selection:
  assumes "provider_payload data"
  shows "(carries_values (member data ''current'')
            \<longrightarrow> select_source data = Inr (member data ''current'') \<and>
                (source_ok (member data ''current'')
                   \<longrightarrow> parse_measurement cfg t data
                         = Inr (Some (source_measurement cfg t (member data ''current''))))) \<and>
         (\<not> carries_values (member data ''current'') \<and> member data ''history'' = PList (h # hs)
            \<longrightarrow> select_source data = Inr h \<and>
                (truthy h \<and> source_ok h
                   \<longrightarrow> parse_measurement cfg t data = Inr (Some (source_measurement cfg t h))) \<and>
                (\<not> truthy h \<longrightarrow> parse_measurement cfg t data = Inr None)) \<and>
         (\<not> carries_values (member data ''current'') \<and>
          (member data ''history'' = PNone \<or> member data ''history'' = PList [])
            \<longrightarrow> parse_measurement cfg (now env) data = Inr None \<and>
                (fetch_from_airly cfg env = Some data
                   \<longrightarrow> collect_once lib cfg env w = (Inr False, w) \<and>
                       invoked (snd (collect_once lib cfg env w)) = invoked w))"
proof -
  let ?cur = "member data ''current''"
  note e = select_source_eq [OF assms]
  have s: "section_ok ?cur"
    using assms by (simp add: provider_payload_def)
  have 1: "select_source data = Inr ?cur \<and>
           (source_ok ?cur
              \<longrightarrow> parse_measurement cfg t data = Inr (Some (source_measurement cfg t ?cur)))"
    if c: "carries_values ?cur"
  proof -
    have sel: "select_source data = Inr ?cur"
      using c by (simp add: e)
    have tc: "truthy ?cur"
      using c carries_values_truthy [OF s] by simp
    then have "?cur \<noteq> PNone" by auto
    then have td: "truthy data" by (rule member_truthy)
    show ?thesis
      using sel parse_of_source [OF td sel tc] by blast
  qed
  have 2: "select_source data = Inr h \<and>
           (truthy h \<and> source_ok h
              \<longrightarrow> parse_measurement cfg t data = Inr (Some (source_measurement cfg t h))) \<and>
           (\<not> truthy h \<longrightarrow> parse_measurement cfg t data = Inr None)"
    if c: "\<not> carries_values ?cur" "member data ''history'' = PList (h # hs)"
  proof -
    have sel: "select_source data = Inr h"
      using c by (simp add: e)
    have "member data ''history'' \<noteq> PNone"
      using c(2) by simp
    then have td: "truthy data" by (rule member_truthy)
    show ?thesis
      using sel parse_of_source [OF td sel] parse_no_source [OF sel] by blast
  qed
  have 3: "parse_measurement cfg (now env) data = Inr None"
    if "\<not> carries_values ?cur"
      "member data ''history'' = PNone \<or> member data ''history'' = PList []"
    using that by (auto simp: parse_measurement_def e py_bind_def)
  have 4: "collect_once lib cfg env w = (Inr False, w)"
    if "parse_measurement cfg (now env) data = Inr None" "fetch_from_airly cfg env = Some data"
    using that by (simp add: collect_once_def)
  show ?thesis using 1 2 3 4 by simp
qed

theorem source_selection_witness:
  "provider_payload both_payload \<and>
   carries_values (member both_payload ''current'') \<and>
   source_ok (member both_payload ''current'') \<and>
   member both_payload ''history''
     = PList [PDict [(''values'',
                      PList [PDict [(''name'', PStr ''PM25''), (''value'', PFloat 13)]])]] \<and>
   parse_measurement example_config example_time both_payload
     = Inr (Some example_measurement) \<and>
   provider_payload history_payload \<and>
   \<not> carries_values (member history_payload ''current'') \<and>
   select_source history_payload =
     Inr (PDict [(''values'',
                  PList [PDict [(''name'', PStr ''PM25''), (''value'', PFloat 13)]])]) \<and>
   parse_measurement example_config example_time history_payload
     = Inr (Some (example_measurement\<lparr>pm25 := PFloat 13, pm10 := PNone\<rparr>)) \<and>
   provider_payload no_data_payload \<and>
   \<not> carries_values (member no_data_payload ''current'') \<and>
   member no_data_payload ''history'' = PList [] \<and>
   fetch_from_airly example_config no_data_env = Some no_data_payload \<and>
   collect_once example_lib example_config no_data_env empty_world = (Inr False, empty_world)"
proof -
  let ?h = "PDict [(''values'',
                    PList [PDict [(''name'', PStr ''PM25''), (''value'', PFloat 13)]])]"
  have a: "provider_payload both_payload"
    by (simp add: provider_payload_def both_payload_def member_def section_ok_def)
  have b: "carries_values (member both_payload ''current'')"
    by (simp add: carries_values_def both_payload_def member_def)
  have b': "source_ok (member both_payload ''current'')"
    by (simp add: source_ok_def values_ok_def section_values_def indexes_ok_def entry_ok_def
        has_key_def both_payload_def member_def)
  have c: "member both_payload ''history'' = PList [?h]"
    by (simp add: both_payload_def member_def)
  have m1: "source_measurement example_config example_time (member both_payload ''current'')
              = example_measurement"
    by (simp add: source_measurement_def section_values_def last_value_def named_def
        first_index_value_def both_payload_def member_def example_measurement_def
        example_config_def)
  have d: "provider_payload no_data_payload"
    by (simp add: provider_payload_def no_data_payload_def member_def section_ok_def)
  have e: "\<not> carries_values (member no_data_payload ''current'')"
    by (simp add: carries_values_def no_data_payload_def member_def)
  have f: "member no_data_payload ''history'' = PList []"
    by (simp add: no_data_payload_def member_def)
  have g: "fetch_from_airly example_config no_data_env = Some no_data_payload"
    by (simp add: fetch_from_airly_def no_data_env_def example_env_def example_config_def)
  have h: "provider_payload history_payload"
    by (simp add: provider_payload_def history_payload_def member_def section_ok_def)
  have i: "\<not> carries_values (member history_payload ''current'')"
    by (simp add: carries_values_def history_payload_def member_def)
  have j: "member history_payload ''history'' = PList (?h # [PDict [(''values'', PList [])]])"
    by (simp add: history_payload_def member_def)
  have k: "truthy ?h" "source_ok ?h"
    by (simp_all add: source_ok_def values_ok_def section_values_def indexes_ok_def
        entry_ok_def has_key_def member_def)
  have m2: "source_measurement example_config example_time ?h
              = example_measurement\<lparr>pm25 := PFloat 13, pm10 := PNone\<rparr>"
    by (simp add: source_measurement_def section_values_def last_value_def named_def
        first_index_value_def member_def example_measurement_def example_config_def)
  show ?thesis
    using source_selection [OF a, where cfg = example_config and env = example_env
          and lib = example_lib and w = empty_world and t = example_time]
      source_selection [OF d, where cfg = example_config and env = no_data_env
          and lib = example_lib and w = empty_world and t = example_time]
      source_selection [OF h, where cfg = example_config and env = example_env
          and lib = example_lib and w = empty_world and t = example_time
          and h = ?h and hs = "[PDict [(''values'', PList [])]]"]
      a b b' c d e f g h i j k
    by (simp add: m1 m2)
qed

section \<open>Properties of the file sink and the forwarding sink\<close>

text \<open>
  C6. When the file sink succeeds, it has appended one row, after the header row
  \<open>CSV_HEADERS\<close> if and only if the file did not exist before. The row's columns
  stand in the order of the header; an absent optional field is the empty string (not
  "null", not zero); and a Measurement with all optional fields absent gives a row of
  the six fields timestamp, city, lat, lon, hour and minute followed by six empty
  fields.
\<close>

theorem file_sink_row:
  assumes "fst (save_to_csv lib cfg env m w) = Inr True"
  shows "(csv w = None \<longrightarrow>
            csv (snd (save_to_csv lib cfg env m w)) =
              Some [CSV_HEADERS, map (csv_text lib) (to_csv_row lib m)]) \<and>
         (\<forall>rows. csv w = Some rows \<longrightarrow>
            csv (snd (save_to_csv lib cfg env m w)) =
              Some (rows @ [map (csv_text lib) (to_csv_row lib m)])) \<and>
         zip CSV_HEADERS (to_csv_row lib m) =
           [(''datetime_utc'', PStr (strftime lib (timestamp m))),
            (''city'', PStr (city m)),
            (''lat'', PFloat (latitude m)),
            (''lon'', PFloat (longitude m)),
            (''hour_utc'', PInt (hour_utc m)),
            (''minute_utc'', PInt (minute_utc m)),
            (''PM25'', or_empty (pm25 m)),
            (''PM10'', or_empty (pm10 m)),
            (''TEMPERATURE'', or_empty (temperature m)),
            (''HUMIDITY'', or_empty (humidity m)),
            (''PRESSURE'', or_empty (pressure m)),
            (''AQI'', or_empty (aqi m))] \<and>
         or_empty PNone = PStr [] \<and> csv_text lib (or_empty PNone) = [] \<and>
         (all_absent m \<longrightarrow>
            map (csv_text lib) (to_csv_row lib m) =
              [strftime lib (timestamp m), city m,
               py_str lib (PFloat (latitude m)), py_str lib (PFloat (longitude m)),
               py_str lib (PInt (hour_utc m)), py_str lib (PInt (minute_utc m)),
               [], [], [], [], [], []])"
proof -
  have s: "csv (snd (save_to_csv lib cfg env m w)) =
             Some ((case csv w of None \<Rightarrow> [CSV_HEADERS] | Some rows \<Rightarrow> rows)
                   @ [map (csv_text lib) (to_csv_row lib m)])"
    using assms by (auto simp: save_to_csv_def Let_def split: if_splits)
  have z: "zip CSV_HEADERS (to_csv_row lib m) =
           [(''datetime_utc'', PStr (strftime lib (timestamp m))),
            (''city'', PStr (city m)),
            (''lat'', PFloat (latitude m)),
            (''lon'', PFloat (longitude m)),
            (''hour_utc'', PInt (hour_utc m)),
            (''minute_utc'', PInt (minute_utc m)),
            (''PM25'', or_empty (pm25 m)),
            (''PM10'', or_empty (pm10 m)),
            (''TEMPERATURE'', or_empty (temperature m)),
            (''HUMIDITY'', or_empty (humidity m)),
            (''PRESSURE'', or_empty (pressure m)),
            (''AQI'', or_empty (aqi m))]"
    by (simp add: CSV_HEADERS_def to_csv_row_def)
  have e: "or_empty PNone = PStr []" "csv_text lib (or_empty PNone) = []"
    by (simp_all add: or_empty_def csv_text_def)
  have a: "map (csv_text lib) (to_csv_row lib m) =
              [strftime lib (timestamp m), city m,
               py_str lib (PFloat (latitude m)), py_str lib (PFloat (longitude m)),
               py_str lib (PInt (hour_utc m)), py_str lib (PInt (minute_utc m)),
               [], [], [], [], [], []]" if "all_absent m"
    using that by (simp add: all_absent_def to_csv_row_def e csv_text_def)
  show ?thesis using s z e a by simp
qed

theorem file_sink_row_witness:
  "fst (save_to_csv example_lib example_config example_env bare_measurement empty_world)
     = Inr True \<and>
   csv empty_world = None \<and>
   all_absent bare_measurement \<and>
   csv (snd (save_to_csv example_lib example_config example_env bare_measurement empty_world)) =
     Some [[''datetime_utc'', ''city'', ''lat'', ''lon'', ''hour_utc'', ''minute_utc'',
            ''PM25'', ''PM10'', ''TEMPERATURE'', ''HUMIDITY'', ''PRESSURE'', ''AQI''],
           [''2024-05-01 14:30:00'', ''Gdansk'', ''54.352'', ''18.6466'', ''14'', ''30'',
            [], [], [], [], [], []]] \<and>
   fst (save_to_csv example_lib example_config example_env bare_measurement
          existing_file_world) = Inr True \<and>
   csv existing_file_world = Some [[''kept'']] \<and>
   csv (snd (save_to_csv example_lib example_config example_env bare_measurement
               existing_file_world)) =
     Some [[''kept''],
           [''2024-05-01 14:30:00'', ''Gdansk'', ''54.352'', ''18.6466'', ''14'', ''30'',
            [], [], [], [], [], []]]"
proof -
  have a: "fst (save_to_csv example_lib example_config example_env bare_measurement w)
     = Inr True" for w
    by (simp add: save_to_csv_def example_env_def Let_def)
  have b: "csv empty_world = None" "csv existing_file_world = Some [[''kept'']]"
    by (simp_all add: empty_world_def existing_file_world_def)
  have c: "all_absent bare_measurement"
    by (simp add: all_absent_def bare_measurement_def example_measurement_def)
  have d: "strftime example_lib (timestamp bare_measurement) = ''2024-05-01 14:30:00''"
    "city bare_measurement = ''Gdansk''"
    "py_str example_lib (PFloat (latitude bare_measurement)) = ''54.352''"
    "py_str example_lib (PFloat (longitude bare_measurement)) = ''18.6466''"
    "py_str example_lib (PInt (hour_utc bare_measurement)) = ''14''"
    "py_str example_lib (PInt (minute_utc bare_measurement)) = ''30''"
    by (simp_all add: bare_measurement_def example_measurement_def example_lib_def
        hour_utc_def minute_utc_def example_time_def)
  show ?thesis
    using file_sink_row [OF a [of empty_world]] file_sink_row [OF a [of existing_file_world]]
      a b c
    by (simp add: d CSV_HEADERS_def)
qed




section \<open>Properties of the migration engine\<close>

lemma reported_summary:
  "reported (summary st) = (rows_imported st, rows_duplicate st, rows_skipped st)"
  by (simp add: summary_def)

lemma migrate_row_cases:
  "migrate_row lib dflt env sd i row st = skip_row st \<or>
   (sd \<and> (\<exists>dt c. row_key lib row = Some (dt, c) \<and> list_ex (key_matches dt c) (tbl st)) \<and>
    migrate_row lib dflt env sd i row st = mark_duplicate st) \<or>
   (\<exists>dt c vals. row_key lib row = Some (dt, c) \<and> row_values lib dflt row dt c = Some vals \<and>
      not_null_ok vals \<and> (sd \<longrightarrow> \<not> list_ex (key_matches dt c) (tbl st)) \<and>
      migrate_row lib dflt env sd i row st = import_row vals st)"
  by (auto simp: migrate_row_def mark_duplicate_def import_row_def split: option.splits)

lemma row_values_key:
  "row_values lib dflt row dt c = Some vals \<Longrightarrow> col_datetime_utc vals = dt \<and> col_city vals = c"
  by (auto simp: row_values_def Option.bind_eq_Some_conv)

lemma imported_matches:
  assumes "row_values lib dflt row dt c = Some vals" and "not_null_ok vals"
  shows "key_matches dt' c' vals \<longleftrightarrow> dt' = dt \<and> c' = c"
  using row_values_key [OF assms(1)] assms(2)
  by (auto simp: key_matches_def not_null_ok_def)

lemma accounted_migrate_row:
  "accounted (migrate_row lib dflt env sd i row st) = Suc (accounted st)"
  using migrate_row_cases [of lib dflt env sd i row st]
  by (auto simp: accounted_def skip_row_def mark_duplicate_def import_row_def)

lemma accounted_migrate_rows:
  "accounted (migrate_rows lib dflt env sd i rows st) = accounted st + length rows"
  by (induction rows arbitrary: i st) (simp_all add: accounted_migrate_row)

lemma migrate_rows_append:
  "migrate_rows lib dflt env sd i (xs @ ys) st =
     migrate_rows lib dflt env sd (i + length xs) ys (migrate_rows lib dflt env sd i xs st)"
  by (induction xs arbitrary: i st) simp_all

text \<open>The table grows by exactly the imported rows.\<close>

lemma tbl_migrate_row:
  "\<exists>ins. tbl (migrate_row lib dflt env sd i row st) = tbl st @ ins \<and>
         rows_imported (migrate_row lib dflt env sd i row st) = rows_imported st + length ins \<and>
         rows_skipped st \<le> rows_skipped (migrate_row lib dflt env sd i row st)"
  using migrate_row_cases [of lib dflt env sd i row st]
  by (auto simp: skip_row_def mark_duplicate_def import_row_def)

lemma tbl_migrate_rows:
  "\<exists>ins. tbl (migrate_rows lib dflt env sd i rows st) = tbl st @ ins \<and>
         rows_imported (migrate_rows lib dflt env sd i rows st) = rows_imported st + length ins \<and>
         rows_skipped st \<le> rows_skipped (migrate_rows lib dflt env sd i rows st)"
proof (induction rows arbitrary: i st)
  case Nil
  then show ?case by simp
next
  case (Cons row rows)
  let ?st = "migrate_row lib dflt env sd i row st"
  obtain a where a: "tbl ?st = tbl st @ a" "rows_imported ?st = rows_imported st + length a"
    "rows_skipped st \<le> rows_skipped ?st"
    using tbl_migrate_row [of lib dflt env sd i row st] by blast
  obtain b where b: "tbl (migrate_rows lib dflt env sd (Suc i) rows ?st) = tbl ?st @ b"
    "rows_imported (migrate_rows lib dflt env sd (Suc i) rows ?st) = rows_imported ?st + length b"
    "rows_skipped ?st \<le> rows_skipped (migrate_rows lib dflt env sd (Suc i) rows ?st)"
    using Cons.IH [of "Suc i" ?st] by blast
  have "tbl (migrate_rows lib dflt env sd i (row # rows) st) = tbl st @ (a @ b)"
    using a b by simp
  moreover have "rows_imported (migrate_rows lib dflt env sd i (row # rows) st)
       = rows_imported st + length (a @ b)"
    using a b by simp
  moreover have "rows_skipped st \<le> rows_skipped (migrate_rows lib dflt env sd i (row # rows) st)"
    using a b by simp
  ultimately show ?case by blast
qed

lemma dict_row_example:
  "dict_row CSV_HEADERS (example_row ts c p25) =
     [''datetime_utc'' \<mapsto> Some ts, ''city'' \<mapsto> Some c, ''lat'' \<mapsto> Some ''54.352'',
      ''lon'' \<mapsto> Some ''18.6466'', ''hour_utc'' \<mapsto> Some ''14'', ''minute_utc'' \<mapsto> Some ''30'',
      ''PM25'' \<mapsto> Some p25, ''PM10'' \<mapsto> Some ''20.0'', ''TEMPERATURE'' \<mapsto> Some [],
      ''HUMIDITY'' \<mapsto> Some [], ''PRESSURE'' \<mapsto> Some [], ''AQI'' \<mapsto> Some []]"
  by (rule ext) (simp add: dict_row_def CSV_HEADERS_def example_row_def)

lemma example_row_key:
  "row_key example_lib (dict_row CSV_HEADERS (example_row ''2024-05-01 14:30:00'' c p25))
     = Some (example_time, PStr c)"
  "row_key example_lib (dict_row CSV_HEADERS (example_row ''yesterday'' c p25)) = None"
  by (simp_all add: dict_row_example row_key_def example_lib_def)

lemma example_row_values:
  "row_values example_lib 3387 (dict_row CSV_HEADERS (example_row ts c ''12.0'')) example_time (PStr c)
     = Some (example_stored c 12)"
  "row_values example_lib 3387 (dict_row CSV_HEADERS (example_row ts c ''13.0'')) example_time (PStr c)
     = Some (example_stored c 13)"
  by (simp_all add: dict_row_example row_values_def float_or_none_def int_or_none_def
      station_or_default_def example_lib_def example_stored_def)

lemma example_row_nonempty: "example_row ts c p25 \<noteq> []"
  by (simp add: example_row_def)


lemma migrate_csv_cases:
  assumes "source_file env = Some lines"
  shows "migrate_csv lib dflt env sd store =
     (if connect_fails env \<or> open_fails env \<or> reader_fails env \<or> commit_fails env
      then \<lparr>returned = False, logged = [], store_after = store\<rparr>
      else \<lparr>returned = True, logged = summary (final_state lib dflt env sd lines store),
             store_after = tbl (final_state lib dflt env sd lines store)\<rparr>)"
  using assms by (simp add: migrate_csv_def final_state_def Let_def)

lemma migrate_row_once_per_key:
  assumes "tbl st = base @ ins" and "once_per_key base ins"
  shows "\<exists>ins'. tbl (migrate_row lib dflt env True i row st) = base @ ins' \<and>
               once_per_key base ins'"
proof -
  consider (skip) "migrate_row lib dflt env True i row st = skip_row st"
    | (dup) "migrate_row lib dflt env True i row st = mark_duplicate st"
    | (imp) dt c vals where "row_key lib row = Some (dt, c)"
        "row_values lib dflt row dt c = Some vals" "not_null_ok vals"
        "\<not> list_ex (key_matches dt c) (tbl st)"
        "migrate_row lib dflt env True i row st = import_row vals st"
    using migrate_row_cases [of lib dflt env True i row st] by auto
  then show ?thesis
  proof cases
    case skip
    then show ?thesis using assms by (auto simp: skip_row_def)
  next
    case dup
    then show ?thesis using assms by (auto simp: mark_duplicate_def)
  next
    case imp
    have m: "key_matches dt' c' vals \<longleftrightarrow> dt' = dt \<and> c' = c" for dt' c'
      by (rule imported_matches [OF imp(2,3)])
    have none: "\<not> list_ex (key_matches dt c) base" "filter (key_matches dt c) ins = []"
      using imp(4) assms(1) by (auto simp: list_ex_iff filter_empty_conv)
    have "length (filter (key_matches dt' c') (ins @ [vals]))
            \<le> (if list_ex (key_matches dt' c') base then 0 else 1)" for dt' c'
    proof (cases "dt' = dt \<and> c' = c")
      case True
      then show ?thesis using none m by simp
    next
      case False
      then have "filter (key_matches dt' c') (ins @ [vals]) = filter (key_matches dt' c') ins"
        using m by simp
      then show ?thesis using assms(2) by (simp add: once_per_key_def)
    qed
    then have "once_per_key base (ins @ [vals])"
      by (simp add: once_per_key_def)
    moreover have "tbl (migrate_row lib dflt env True i row st) = base @ (ins @ [vals])"
      using imp(5) assms(1) by (simp add: import_row_def)
    ultimately show ?thesis by blast
  qed
qed

lemma migrate_rows_once_per_key:
  assumes "tbl st = base @ ins" and "once_per_key base ins"
  shows "\<exists>ins'. tbl (migrate_rows lib dflt env True i rows st) = base @ ins' \<and>
               once_per_key base ins'"
  using assms
proof (induction rows arbitrary: i st ins)
  case Nil
  then show ?case by auto
next
  case (Cons row rows)
  obtain a where a: "tbl (migrate_row lib dflt env True i row st) = base @ a"
    "once_per_key base a"
    using migrate_row_once_per_key [OF Cons.prems] by blast
  show ?case
    using Cons.IH [OF a] by simp
qed

lemma list_ex_migrate_rows:
  assumes "list_ex P (tbl st)"
  shows "list_ex P (tbl (migrate_rows lib dflt env sd i rows st))"
proof -
  obtain ins where "tbl (migrate_rows lib dflt env sd i rows st) = tbl st @ ins"
    using tbl_migrate_rows [of lib dflt env sd i rows st] by blast
  then show ?thesis using assms by (auto simp: list_ex_iff)
qed

text \<open>A run without a skipped row leaves a match for the key of every row.\<close>

lemma unskipped_rows_present:
  assumes "rows_skipped (migrate_rows lib dflt env True i rows st) = rows_skipped st"
    and "row \<in> set rows"
  shows "\<exists>dt c. row_key lib row = Some (dt, c) \<and>
               list_ex (key_matches dt c) (tbl (migrate_rows lib dflt env True i rows st))"
  using assms
proof (induction rows arbitrary: i st)
  case Nil
  then show ?case by simp
next
  case (Cons r rows)
  let ?st = "migrate_row lib dflt env True i r st"
  let ?fin = "migrate_rows lib dflt env True (Suc i) rows ?st"
  have le1: "rows_skipped st \<le> rows_skipped ?st"
    using tbl_migrate_row [of lib dflt env True i r st] by blast
  have le2: "rows_skipped ?st \<le> rows_skipped ?fin"
    using tbl_migrate_rows [of lib dflt env True "Suc i" rows ?st] by blast
  have eq: "rows_skipped ?fin = rows_skipped st"
    using Cons.prems(1) by simp
  have e1: "rows_skipped ?st = rows_skipped st" and e2: "rows_skipped ?fin = rows_skipped ?st"
    using le1 le2 eq by simp_all
  show ?case
  proof (cases "row = r")
    case True
    have "\<exists>dt c. row_key lib r = Some (dt, c) \<and> list_ex (key_matches dt c) (tbl ?st)"
    proof -
      consider (skip) "?st = skip_row st"
        | (dup) dt c where "row_key lib r = Some (dt, c)" "list_ex (key_matches dt c) (tbl st)"
            "?st = mark_duplicate st"
        | (imp) dt c vals where "row_key lib r = Some (dt, c)"
            "row_values lib dflt r dt c = Some vals" "not_null_ok vals"
            "?st = import_row vals st"
        using migrate_row_cases [of lib dflt env True i r st] by auto
      then show ?thesis
      proof cases
        case skip
        then show ?thesis using e1 by (simp add: skip_row_def)
      next
        case dup
        then show ?thesis by (auto simp: mark_duplicate_def)
      next
        case imp
        have "key_matches dt c vals"
          using imported_matches [OF imp(2,3)] by simp
        then show ?thesis using imp(1,4) by (auto simp: import_row_def list_ex_iff)
      qed
    qed
    then show ?thesis
      using True list_ex_migrate_rows [of _ ?st lib dflt env True "Suc i" rows] by auto
  next
    case False
    then have "row \<in> set rows" using Cons.prems(2) by simp
    from Cons.IH [OF e2 this] show ?thesis by simp
  qed
qed

text \<open>Rows whose keys are all in the table are all counted as duplicates.\<close>

lemma all_duplicates:
  assumes "\<forall>row \<in> set rows. \<exists>dt c. row_key lib row = Some (dt, c) \<and>
             list_ex (key_matches dt c) (tbl st)"
    and "\<forall>j. \<not> check_fails env j"
  shows "migrate_rows lib dflt env True i rows st =
           st\<lparr>rows_duplicate := rows_duplicate st + length rows\<rparr>"
  using assms(1)
proof (induction rows arbitrary: i st)
  case Nil
  then show ?case by simp
next
  case (Cons r rows)
  obtain dt c where k: "row_key lib r = Some (dt, c)" "list_ex (key_matches dt c) (tbl st)"
    using Cons.prems by auto
  have s: "migrate_row lib dflt env True i r st = st\<lparr>rows_duplicate := rows_duplicate st + 1\<rparr>"
    using k assms(2) by (simp add: migrate_row_def)
  have "\<forall>row \<in> set rows. \<exists>dt c. row_key lib row = Some (dt, c) \<and>
          list_ex (key_matches dt c) (tbl (st\<lparr>rows_duplicate := rows_duplicate st + 1\<rparr>))"
    using Cons.prems by simp
  from Cons.IH [OF this] show ?case
    by (simp add: s)
qed

lemma migrate_csv_completes:
  assumes "source_file env = Some lines" and "completes env"
  shows "migrate_csv lib dflt env sd store =
     \<lparr>returned = True, logged = summary (final_state lib dflt env sd lines store),
      store_after = tbl (final_state lib dflt env sd lines store)\<rparr>"
  using assms(2) by (simp add: migrate_csv_cases [OF assms(1)] completes_def)

text \<open>
  C2, amended. Two completed migrations of one file with duplicate detection add to
  the store at most one row per identity key, and none for a key the store already
  held. If the first run skipped no row, every row's key is in the store exactly once
  among the added rows (unless it was there before), and a second run whose probes
  succeed imports nothing, skips nothing and reports as duplicates the first run's
  imported plus duplicate count. That is the first run's imported count only when
  the first run found no duplicate.
\<close>

theorem migration_twice:
  assumes "source_file env1 = Some lines" and "source_file env2 = Some lines"
    and "completes env1" and "completes env2"
    and "run_twice lib dflt env1 env2 store = (r1, r2)"
  shows "\<exists>ins. store_after r2 = store @ ins \<and> once_per_key store ins \<and>
           (\<forall>i1 d1. reported (logged r1) = (i1, d1, 0) \<longrightarrow>
              (\<forall>row \<in> set (DictReader lines).
                 \<exists>dt c. row_key lib row = Some (dt, c) \<and>
                   length (filter (key_matches dt c) ins)
                     = (if list_ex (key_matches dt c) store then 0 else 1)) \<and>
              ((\<forall>j. \<not> check_fails env2 j) \<longrightarrow>
                 reported (logged r2) = (0, i1 + d1, 0) \<and> store_after r2 = store_after r1))"
proof -
  let ?rows = "DictReader lines"
  let ?f1 = "final_state lib dflt env1 True lines store"
  let ?f2 = "final_state lib dflt env2 True lines (tbl ?f1)"
  have r1: "r1 = \<lparr>returned = True, logged = summary ?f1, store_after = tbl ?f1\<rparr>"
    using assms(5) migrate_csv_completes [OF assms(1,3), of lib dflt True store]
    by (simp add: run_twice_def Let_def)
  have r2: "r2 = \<lparr>returned = True, logged = summary ?f2, store_after = tbl ?f2\<rparr>"
    using assms(5) migrate_csv_completes [OF assms(1,3), of lib dflt True store]
      migrate_csv_completes [OF assms(2,4), of lib dflt True "tbl ?f1"]
    by (simp add: run_twice_def Let_def)
  have "once_per_key store []"
    by (simp add: once_per_key_def)
  then obtain a where a: "tbl ?f1 = store @ a" "once_per_key store a"
    using migrate_rows_once_per_key [of "start_state store" store "[]" lib dflt env1 0 ?rows]
    by (auto simp: final_state_def start_state_def)
  obtain b where b: "tbl ?f2 = store @ b" "once_per_key store b"
    using migrate_rows_once_per_key [of "start_state (tbl ?f1)" store a lib dflt env2 0 ?rows] a
    by (auto simp: final_state_def start_state_def)
  have acc: "rows_imported ?f1 + rows_duplicate ?f1 + rows_skipped ?f1 = length ?rows"
    using accounted_migrate_rows [of lib dflt env1 True 0 ?rows "start_state store"]
    by (simp add: accounted_def final_state_def start_state_def)
  have main: "(\<forall>row \<in> set ?rows.
                 \<exists>dt c. row_key lib row = Some (dt, c) \<and>
                   length (filter (key_matches dt c) b)
                     = (if list_ex (key_matches dt c) store then 0 else 1)) \<and>
              ((\<forall>j. \<not> check_fails env2 j) \<longrightarrow>
                 reported (logged r2) = (0, i1 + d1, 0) \<and> store_after r2 = store_after r1)"
    if rep: "reported (logged r1) = (i1, d1, 0)" for i1 d1
  proof -
    have c1: "rows_imported ?f1 = i1" "rows_duplicate ?f1 = d1" "rows_skipped ?f1 = 0"
      using rep by (simp_all add: r1 reported_summary)
    have sk: "rows_skipped (migrate_rows lib dflt env1 True 0 ?rows (start_state store))
                = rows_skipped (start_state store)"
      using c1(3) by (simp add: final_state_def start_state_def)
    have present: "\<exists>dt c. row_key lib row = Some (dt, c) \<and> list_ex (key_matches dt c) (tbl ?f1)"
      if "row \<in> set ?rows" for row
      using unskipped_rows_present [OF sk that] by (simp add: final_state_def)
    have one: "\<exists>dt c. row_key lib row = Some (dt, c) \<and>
                   length (filter (key_matches dt c) b)
                     = (if list_ex (key_matches dt c) store then 0 else 1)"
      if rin: "row \<in> set ?rows" for row
    proof -
      obtain dt c where k: "row_key lib row = Some (dt, c)"
        "list_ex (key_matches dt c) (tbl ?f1)"
        using present [OF rin] by blast
      have "list_ex (key_matches dt c) (tbl ?f2)"
        using list_ex_migrate_rows [of "key_matches dt c" "start_state (tbl ?f1)"
            lib dflt env2 True 0 ?rows] k(2)
        by (simp add: final_state_def start_state_def)
      then have ex: "list_ex (key_matches dt c) store \<or> filter (key_matches dt c) b \<noteq> []"
        unfolding b(1) by (auto simp: list_ex_iff filter_empty_conv)
      have le: "length (filter (key_matches dt c) b)
                  \<le> (if list_ex (key_matches dt c) store then 0 else 1)"
        using b(2) by (simp add: once_per_key_def)
      have "length (filter (key_matches dt c) b)
              = (if list_ex (key_matches dt c) store then 0 else 1)"
      proof (cases "list_ex (key_matches dt c) store")
        case True
        then show ?thesis using le by simp
      next
        case False
        then have "filter (key_matches dt c) b \<noteq> []" using ex by simp
        then have "length (filter (key_matches dt c) b) \<noteq> 0" by simp
        moreover have "length (filter (key_matches dt c) b) \<le> 1" using le False by simp
        ultimately have "length (filter (key_matches dt c) b) = 1" by linarith
        then show ?thesis using False by simp
      qed
      with k(1) show ?thesis by blast
    qed
    have two: "reported (logged r2) = (0, i1 + d1, 0) \<and> store_after r2 = store_after r1"
      if nf: "\<forall>j. \<not> check_fails env2 j"
    proof -
      have "\<forall>row \<in> set ?rows. \<exists>dt c. row_key lib row = Some (dt, c) \<and>
              list_ex (key_matches dt c) (tbl (start_state (tbl ?f1)))"
        using present by (simp add: start_state_def)
      from all_duplicates [OF this nf, of dflt 0]
      have f2: "?f2 = (start_state (tbl ?f1))\<lparr>rows_duplicate := length ?rows\<rparr>"
        by (simp add: final_state_def start_state_def)
      have n: "length ?rows = i1 + d1"
        using acc c1 by simp
      show ?thesis
        by (simp add: r1 r2 reported_summary) (simp add: f2 start_state_def n)
    qed
    show ?thesis using one two by blast
  qed
  have "store_after r2 = store @ b"
    by (simp add: r2 b(1))
  with b(2) main show ?thesis by blast
qed

lemma repeated_key_first:
  "final_state example_lib 3387 (no_faults f) True repeated_key_file []
     = \<lparr>tbl = [example_stored ''Gdansk'' 12],
        rows_imported = 1, rows_skipped = 0, rows_duplicate = 1\<rparr>"
  by (simp add: final_state_def DictReader_def repeated_key_file_def migrate_row_def
      example_row_key example_row_values start_state_def no_faults_def skip_row_def
      not_null_ok_def key_matches_def example_stored_def example_row_nonempty)

lemma repeated_key_second:
  "final_state example_lib 3387 (no_faults f) True repeated_key_file
       [example_stored ''Gdansk'' 12]
     = \<lparr>tbl = [example_stored ''Gdansk'' 12],
        rows_imported = 0, rows_skipped = 0, rows_duplicate = 2\<rparr>"
  by (simp add: final_state_def DictReader_def repeated_key_file_def migrate_row_def
      example_row_key example_row_values start_state_def no_faults_def skip_row_def
      not_null_ok_def key_matches_def example_stored_def example_row_nonempty)

lemma distinct_key_first:
  "final_state example_lib 3387 (no_faults f) True distinct_key_file []
     = \<lparr>tbl = [example_stored ''Gdansk'' 12, example_stored ''Sopot'' 13],
        rows_imported = 2, rows_skipped = 0, rows_duplicate = 0\<rparr>"
  by (simp add: final_state_def DictReader_def distinct_key_file_def migrate_row_def
      example_row_key example_row_values start_state_def no_faults_def skip_row_def
      not_null_ok_def key_matches_def example_stored_def example_row_nonempty)

lemma no_faults_completes: "completes (no_faults f)" "source_file (no_faults f) = f"
  "check_fails (no_faults f) j = False"
  by (simp_all add: completes_def no_faults_def)

text \<open>
  C2 as stated fails on a file that repeats a key: the first run imports 1 row and
  counts 1 duplicate, the second run counts 2 duplicates.
\<close>

theorem migration_twice_counterexample:
  "reported (logged (fst (run_twice example_lib 3387 (no_faults (Some repeated_key_file))
       (no_faults (Some repeated_key_file)) []))) = (1, 1, 0) \<and>
   reported (logged (snd (run_twice example_lib 3387 (no_faults (Some repeated_key_file))
       (no_faults (Some repeated_key_file)) []))) = (0, 2, 0) \<and>
   fst (snd (reported (logged (snd (run_twice example_lib 3387
       (no_faults (Some repeated_key_file)) (no_faults (Some repeated_key_file)) [])))))
     \<noteq> fst (reported (logged (fst (run_twice example_lib 3387
       (no_faults (Some repeated_key_file)) (no_faults (Some repeated_key_file)) []))))"
proof -
  have c: "migrate_csv example_lib 3387 (no_faults (Some repeated_key_file)) True store =
     \<lparr>returned = True,
      logged = summary (final_state example_lib 3387 (no_faults (Some repeated_key_file)) True
                 repeated_key_file store),
      store_after = tbl (final_state example_lib 3387 (no_faults (Some repeated_key_file)) True
                 repeated_key_file store)\<rparr>" for store
    by (rule migrate_csv_completes) (simp_all add: no_faults_completes)
  show ?thesis
    by (simp add: run_twice_def Let_def c repeated_key_first repeated_key_second
        reported_summary)
qed

theorem migration_twice_witness:
  "source_file (no_faults (Some distinct_key_file)) = Some distinct_key_file \<and>
   completes (no_faults (Some distinct_key_file)) \<and>
   reported (logged (fst (run_twice example_lib 3387 (no_faults (Some distinct_key_file))
       (no_faults (Some distinct_key_file)) []))) = (2, 0, 0) \<and>
   reported (logged (snd (run_twice example_lib 3387 (no_faults (Some distinct_key_file))
       (no_faults (Some distinct_key_file)) []))) = (0, 2, 0) \<and>
   store_after (snd (run_twice example_lib 3387 (no_faults (Some distinct_key_file))
       (no_faults (Some distinct_key_file)) []))
     = [example_stored ''Gdansk'' 12, example_stored ''Sopot'' 13]"
proof -
  let ?env = "no_faults (Some distinct_key_file)"
  let ?run = "run_twice example_lib 3387 ?env ?env []"
  have a: "source_file ?env = Some distinct_key_file" and b: "completes ?env"
    by (simp_all add: no_faults_completes)
  have c: "migrate_csv example_lib 3387 ?env True [] =
     \<lparr>returned = True, logged = summary (final_state example_lib 3387 ?env True
                 distinct_key_file []),
      store_after = tbl (final_state example_lib 3387 ?env True distinct_key_file [])\<rparr>"
    by (rule migrate_csv_completes [OF a b])
  have r1: "reported (logged (fst ?run)) = (2, 0, 0)"
    "store_after (fst ?run) = [example_stored ''Gdansk'' 12, example_stored ''Sopot'' 13]"
    by (simp_all add: run_twice_def Let_def c distinct_key_first reported_summary)
  have p: "?run = (fst ?run, snd ?run)"
    by simp
  from migration_twice [OF a a b b p]
  obtain ins where "store_after (snd ?run) = [] @ ins"
    and "\<forall>i1 d1. reported (logged (fst ?run)) = (i1, d1, 0) \<longrightarrow>
           ((\<forall>j. \<not> check_fails ?env j) \<longrightarrow>
              reported (logged (snd ?run)) = (0, i1 + d1, 0) \<and>
              store_after (snd ?run) = store_after (fst ?run))"
    by blast
  then have "reported (logged (snd ?run)) = (0, 2, 0) \<and>
             store_after (snd ?run) = store_after (fst ?run)"
    using r1(1) by (simp add: no_faults_completes)
  then show ?thesis using a b r1 by simp
qed

lemma dict_row_missing:
  assumes "k \<notin> set fieldnames"
  shows "dict_row fieldnames row k = None"
  unfolding dict_row_def
  by (rule iffD2 [OF map_of_eq_None_iff]) (use assms in \<open>auto dest: set_zip_leftD\<close>)

lemma row_values_station:
  assumes "row ''station_id'' = None" and "row_values lib dflt row dt c = Some vals"
  shows "col_station_id vals = PInt dflt"
  using assms
  by (auto simp: row_values_def station_or_default_def Option.bind_eq_Some_conv)

lemma migrate_rows_all:
  assumes "\<forall>row \<in> set rows. \<forall>dt c vals. row_values lib dflt row dt c = Some vals \<longrightarrow> P vals"
  shows "\<exists>ins. tbl (migrate_rows lib dflt env sd i rows st) = tbl st @ ins \<and> list_all P ins"
  using assms
proof (induction rows arbitrary: i st)
  case Nil
  then show ?case by simp
next
  case (Cons r rows)
  let ?st = "migrate_row lib dflt env sd i r st"
  have "\<exists>a. tbl ?st = tbl st @ a \<and> list_all P a"
    using migrate_row_cases [of lib dflt env sd i r st] Cons.prems
    by (auto simp: skip_row_def mark_duplicate_def import_row_def)
  then obtain a where a: "tbl ?st = tbl st @ a" "list_all P a" by blast
  obtain b where b: "tbl (migrate_rows lib dflt env sd (Suc i) rows ?st) = tbl ?st @ b"
    "list_all P b"
    using Cons.IH [of "Suc i" ?st] Cons.prems by auto
  have "tbl (migrate_rows lib dflt env sd i (r # rows) st) = tbl st @ (a @ b)"
    using a b by simp
  moreover have "list_all P (a @ b)" using a b by simp
  ultimately show ?case by blast
qed

text \<open>
  C4. With duplicate detection, when a row is imported, a later row with the same
  timestamp and city is counted as a duplicate and not inserted, whatever its other
  fields hold (they are not even converted): of two such rows in a row only the first
  is retained. The probe reads nothing but the key.
\<close>

theorem duplicate_by_key_only:
  assumes "row_key lib r1 = Some (dt, c)" and "row_key lib r2 = Some (dt, c)"
    and "\<not> check_fails env i" and "\<not> check_fails env (Suc i)"
    and "\<not> list_ex (key_matches dt c) (tbl st)"
    and "row_values lib dflt r1 dt c = Some vals" and "not_null_ok vals"
    and "\<not> insert_fails env i"
  shows "migrate_rows lib dflt env True i [r1, r2] st =
           st\<lparr>tbl := tbl st @ [vals], rows_imported := rows_imported st + 1,
              rows_duplicate := rows_duplicate st + 1\<rparr> \<and>
         list_ex (key_matches dt c) (tbl (migrate_rows lib dflt env True i (r1 # mid) st)) \<and>
         (\<forall>st' j. list_ex (key_matches dt c) (tbl st') \<and> \<not> check_fails env j \<longrightarrow>
            migrate_row lib dflt env True j r2 st' =
              st'\<lparr>rows_duplicate := rows_duplicate st' + 1\<rparr>)"
proof -
  have m: "key_matches dt c vals"
    using imported_matches [OF assms(6,7)] by simp
  have s1: "migrate_row lib dflt env True i r1 st =
              st\<lparr>tbl := tbl st @ [vals], rows_imported := rows_imported st + 1\<rparr>"
    using assms by (simp add: migrate_row_def)
  have d: "migrate_row lib dflt env True j r2 st' = st'\<lparr>rows_duplicate := rows_duplicate st' + 1\<rparr>"
    if "list_ex (key_matches dt c) (tbl st')" "\<not> check_fails env j" for st' j
    using that assms(2) by (simp add: migrate_row_def)
  have 1: "migrate_rows lib dflt env True i [r1, r2] st =
           st\<lparr>tbl := tbl st @ [vals], rows_imported := rows_imported st + 1,
              rows_duplicate := rows_duplicate st + 1\<rparr>"
    using m assms(4) by (simp add: s1 d)
  have "list_ex (key_matches dt c) (tbl (migrate_row lib dflt env True i r1 st))"
    using m by (simp add: s1)
  then have 2: "list_ex (key_matches dt c) (tbl (migrate_rows lib dflt env True i (r1 # mid) st))"
    using list_ex_migrate_rows by simp
  show ?thesis using 1 2 d by blast
qed

theorem duplicate_by_key_only_witness:
  "row_key example_lib (dict_row CSV_HEADERS (example_row ''2024-05-01 14:30:00'' ''Gdansk'' ''12.0''))
     = Some (example_time, PStr ''Gdansk'') \<and>
   row_key example_lib (dict_row CSV_HEADERS (example_row ''2024-05-01 14:30:00'' ''Gdansk'' ''13.0''))
     = Some (example_time, PStr ''Gdansk'') \<and>
   example_row ''2024-05-01 14:30:00'' ''Gdansk'' ''12.0''
     \<noteq> example_row ''2024-05-01 14:30:00'' ''Gdansk'' ''13.0'' \<and>
   migrate_rows example_lib 3387 (no_faults None) True 0
     [dict_row CSV_HEADERS (example_row ''2024-05-01 14:30:00'' ''Gdansk'' ''12.0''),
      dict_row CSV_HEADERS (example_row ''2024-05-01 14:30:00'' ''Gdansk'' ''13.0'')]
     (start_state [])
   = \<lparr>tbl = [example_stored ''Gdansk'' 12], rows_imported = 1, rows_skipped = 0,
      rows_duplicate = 1\<rparr>"
proof -
  let ?r1 = "dict_row CSV_HEADERS (example_row ''2024-05-01 14:30:00'' ''Gdansk'' ''12.0'')"
  let ?r2 = "dict_row CSV_HEADERS (example_row ''2024-05-01 14:30:00'' ''Gdansk'' ''13.0'')"
  have k1: "row_key example_lib ?r1 = Some (example_time, PStr ''Gdansk'')"
    and k2: "row_key example_lib ?r2 = Some (example_time, PStr ''Gdansk'')"
    by (simp_all add: example_row_key)
  have c: "\<not> check_fails (no_faults None) 0" "\<not> check_fails (no_faults None) (Suc 0)"
    "\<not> insert_fails (no_faults None) 0"
    by (simp_all add: no_faults_def)
  have e: "\<not> list_ex (key_matches example_time (PStr ''Gdansk'')) (tbl (start_state []))"
    by (simp add: start_state_def)
  have v: "row_values example_lib 3387 ?r1 example_time (PStr ''Gdansk'')
             = Some (example_stored ''Gdansk'' 12)"
    by (simp add: example_row_values)
  have n: "not_null_ok (example_stored ''Gdansk'' 12)"
    by (simp add: not_null_ok_def example_stored_def)
  have d: "example_row ''2024-05-01 14:30:00'' ''Gdansk'' ''12.0''
     \<noteq> example_row ''2024-05-01 14:30:00'' ''Gdansk'' ''13.0''"
    by (simp add: example_row_def)
  show ?thesis
    using duplicate_by_key_only [OF k1 k2 c(1,2) e v n c(3)] k1 k2 d
    by (simp add: start_state_def)
qed

lemma dict_row_written:
  "dict_row CSV_HEADERS [f0, f1, f2, f3, f4, f5, f6, f7, f8, f9, f10, f11] =
     [''datetime_utc'' \<mapsto> Some f0, ''city'' \<mapsto> Some f1, ''lat'' \<mapsto> Some f2,
      ''lon'' \<mapsto> Some f3, ''hour_utc'' \<mapsto> Some f4, ''minute_utc'' \<mapsto> Some f5,
      ''PM25'' \<mapsto> Some f6, ''PM10'' \<mapsto> Some f7, ''TEMPERATURE'' \<mapsto> Some f8,
      ''HUMIDITY'' \<mapsto> Some f9, ''PRESSURE'' \<mapsto> Some f10, ''AQI'' \<mapsto> Some f11]"
  by (rule ext) (simp add: dict_row_def CSV_HEADERS_def)

lemma written_file_eq:
  "written_file m = Some [CSV_HEADERS, map (csv_text example_lib) (to_csv_row example_lib m)]"
  by (simp add: written_file_def save_to_csv_def example_env_def empty_world_def Let_def)

text \<open>
  C10. The header of the file sink has no station_id column and the written row does
  not depend on the Measurement's station_id. Whatever rows follow that header, every
  row a migration adds to the store has the migration's default station id, which is
  \<^verbatim>\<open>int\<close> of the INSTALLATION_ID setting, of "3387" when it is unset.
\<close>

theorem migrated_station_id:
  assumes "source_file env = Some (CSV_HEADERS # rows)"
  shows "(\<exists>ins. store_after (migrate_csv lib dflt env sd store) = store @ ins \<and>
            list_all (\<lambda>r. col_station_id r = PInt dflt) ins) \<and>
         ''station_id'' \<notin> set CSV_HEADERS \<and>
         to_csv_row lib (m\<lparr>station_id := s\<rparr>) = to_csv_row lib m \<and>
         DEFAULT_STATION_ID lib Map.empty = py_int lib ''3387'' \<and>
         DEFAULT_STATION_ID lib [''INSTALLATION_ID'' \<mapsto> v] = py_int lib v \<and>
         (csv w = None \<and> fst (save_to_csv lib cfg cenv m w) = Inr True \<longrightarrow>
            csv (snd (save_to_csv lib cfg cenv m w))
              = Some [CSV_HEADERS, map (csv_text lib) (to_csv_row lib m)])"
proof -
  have h: "''station_id'' \<notin> set CSV_HEADERS"
    by (simp add: CSV_HEADERS_def)
  have "col_station_id vals = PInt dflt"
    if rin: "row \<in> set (DictReader (CSV_HEADERS # rows))"
      and rv: "row_values lib dflt row dt c = Some vals" for row dt c vals
  proof -
    obtain r where "row = dict_row CSV_HEADERS r"
      using rin by (auto simp: DictReader_def)
    then have "row ''station_id'' = None"
      using dict_row_missing [OF h] by simp
    then show ?thesis
      by (rule row_values_station [OF _ rv])
  qed
  then have "\<forall>row \<in> set (DictReader (CSV_HEADERS # rows)). \<forall>dt c vals.
          row_values lib dflt row dt c = Some vals \<longrightarrow> col_station_id vals = PInt dflt"
    by blast
  from migrate_rows_all [OF this, of env sd 0 "start_state store"]
  obtain ins where ins: "tbl (final_state lib dflt env sd (CSV_HEADERS # rows) store) = store @ ins"
    "list_all (\<lambda>r. col_station_id r = PInt dflt) ins"
    by (auto simp: final_state_def start_state_def)
  have 1: "\<exists>ins. store_after (migrate_csv lib dflt env sd store) = store @ ins \<and>
            list_all (\<lambda>r. col_station_id r = PInt dflt) ins"
  proof (cases "connect_fails env \<or> open_fails env \<or> reader_fails env \<or> commit_fails env")
    case True
    then have "store_after (migrate_csv lib dflt env sd store) = store @ [] \<and>
        list_all (\<lambda>r. col_station_id r = PInt dflt) []"
      by (simp add: migrate_csv_cases [OF assms])
    then show ?thesis by blast
  next
    case False
    then show ?thesis using ins by (auto simp: migrate_csv_cases [OF assms])
  qed
  have 2: "to_csv_row lib (m\<lparr>station_id := s\<rparr>) = to_csv_row lib m"
    by (simp add: to_csv_row_def hour_utc_def minute_utc_def)
  have 3: "DEFAULT_STATION_ID lib Map.empty = py_int lib ''3387''"
    "DEFAULT_STATION_ID lib [''INSTALLATION_ID'' \<mapsto> v] = py_int lib v"
    by (simp_all add: DEFAULT_STATION_ID_def)
  have 4: "csv w = None \<and> fst (save_to_csv lib cfg cenv m w) = Inr True \<longrightarrow>
            csv (snd (save_to_csv lib cfg cenv m w))
              = Some [CSV_HEADERS, map (csv_text lib) (to_csv_row lib m)]"
    by (auto simp: save_to_csv_def Let_def split: if_splits)
  show ?thesis using 1 h 2 3 4 by blast
qed




section \<open>Properties of the path from the file sink to the store\<close>

lemma optional_reads_back:
  assumes "reads_back lib v"
  shows "(if csv_text lib (or_empty v) = [] then Some PNone
          else map_option PFloat (py_float lib (csv_text lib (or_empty v)))) = Some (as_float v)"
  using assms
  by (cases v) (simp_all add: or_empty_def csv_text_def reads_back_float_def)



lemma written_row_values:
  assumes "codec_ok lib m"
  shows "row_key lib (dict_row CSV_HEADERS (map (csv_text lib) (to_csv_row lib m)))
           = Some (whole_seconds (timestamp m), PStr (city m))"
    and "row_values lib dflt (dict_row CSV_HEADERS (map (csv_text lib) (to_csv_row lib m)))
           (whole_seconds (timestamp m)) (PStr (city m))
           = Some (file_image dflt m)"
proof -
  have c: "strptime lib (strftime lib (timestamp m)) = Some (whole_seconds (timestamp m))"
    "reads_back_float lib (latitude m)" "reads_back_float lib (longitude m)"
    "reads_back_int lib (hour_utc m)" "reads_back_int lib (minute_utc m)"
    using assms by (simp_all add: codec_ok_def)
  have o: "reads_back lib (pm25 m)" "reads_back lib (pm10 m)" "reads_back lib (temperature m)"
    "reads_back lib (humidity m)" "reads_back lib (pressure m)" "reads_back lib (aqi m)"
    using assms by (simp_all add: codec_ok_def)
  note ob = o [THEN optional_reads_back]
  show "row_key lib (dict_row CSV_HEADERS (map (csv_text lib) (to_csv_row lib m)))
           = Some (whole_seconds (timestamp m), PStr (city m))"
    by (simp add: to_csv_row_def dict_row_written row_key_def csv_text_def c)
  have f: "float_or_none lib (dict_row CSV_HEADERS (map (csv_text lib) (to_csv_row lib m))) ''lat''
             = Some (PFloat (latitude m))"
    "float_or_none lib (dict_row CSV_HEADERS (map (csv_text lib) (to_csv_row lib m))) ''lon''
             = Some (PFloat (longitude m))"
    using c(2,3)
    by (simp_all add: to_csv_row_def dict_row_written float_or_none_def csv_text_def
        reads_back_float_def)
  have i: "int_or_none lib (dict_row CSV_HEADERS (map (csv_text lib) (to_csv_row lib m))) ''hour_utc''
             = Some (PInt (hour_utc m))"
    "int_or_none lib (dict_row CSV_HEADERS (map (csv_text lib) (to_csv_row lib m))) ''minute_utc''
             = Some (PInt (minute_utc m))"
    using c(4,5)
    by (simp_all add: to_csv_row_def dict_row_written int_or_none_def csv_text_def
        reads_back_int_def)
  have p: "float_or_none lib (dict_row CSV_HEADERS (map (csv_text lib) (to_csv_row lib m))) ''PM25''
             = Some (as_float (pm25 m))"
    "float_or_none lib (dict_row CSV_HEADERS (map (csv_text lib) (to_csv_row lib m))) ''PM10''
             = Some (as_float (pm10 m))"
    "float_or_none lib (dict_row CSV_HEADERS (map (csv_text lib) (to_csv_row lib m))) ''TEMPERATURE''
             = Some (as_float (temperature m))"
    "float_or_none lib (dict_row CSV_HEADERS (map (csv_text lib) (to_csv_row lib m))) ''HUMIDITY''
             = Some (as_float (humidity m))"
    "float_or_none lib (dict_row CSV_HEADERS (map (csv_text lib) (to_csv_row lib m))) ''PRESSURE''
             = Some (as_float (pressure m))"
    "float_or_none lib (dict_row CSV_HEADERS (map (csv_text lib) (to_csv_row lib m))) ''AQI''
             = Some (as_float (aqi m))"
    using ob
    by (simp_all add: to_csv_row_def dict_row_written float_or_none_def)
  have s: "station_or_default lib dflt
             (dict_row CSV_HEADERS (map (csv_text lib) (to_csv_row lib m))) = Some (PInt dflt)"
    by (simp add: station_or_default_def dict_row_missing CSV_HEADERS_def)
  show "row_values lib dflt (dict_row CSV_HEADERS (map (csv_text lib) (to_csv_row lib m)))
           (whole_seconds (timestamp m)) (PStr (city m))
           = Some (file_image dflt m)"
    by (simp add: row_values_def f i p s insert_params_def file_image_def)
qed

lemma round_trip:
  assumes "codec_ok lib m"
    and "source_file env = Some [CSV_HEADERS, map (csv_text lib) (to_csv_row lib m)]"
    and "completes env" and "\<not> check_fails env 0" and "\<not> insert_fails env 0"
    and "\<not> (sd \<and> list_ex (key_matches (whole_seconds (timestamp m)) (PStr (city m))) store)"
  shows "migrate_csv lib dflt env sd store =
           \<lparr>returned = True, logged = [RowsImported 1],
            store_after = store @ [file_image dflt m]\<rparr>"
proof -
  let ?row = "map (csv_text lib) (to_csv_row lib m)"
  have ne: "?row \<noteq> []"
    by (simp add: to_csv_row_def)
  have n: "not_null_ok (file_image dflt m)"
    by (simp add: not_null_ok_def insert_params_def file_image_def)
  have "migrate_row lib dflt env sd 0 (dict_row CSV_HEADERS ?row) (start_state store) =
          (start_state store)\<lparr>tbl := store @ [file_image dflt m], rows_imported := 1\<rparr>"
    using assms(4,5,6) n
    by (simp add: migrate_row_def written_row_values [OF assms(1)] start_state_def)
  then have "final_state lib dflt env sd [CSV_HEADERS, ?row] store =
          \<lparr>tbl = store @ [file_image dflt m],
           rows_imported = 1, rows_skipped = 0, rows_duplicate = 0\<rparr>"
    using ne by (simp add: final_state_def DictReader_def start_state_def)
  then show ?thesis
    by (simp add: migrate_csv_completes [OF assms(2,3)] summary_def)
qed


lemma bare_codec_ok: "codec_ok example_lib bare_measurement"
  by (simp add: codec_ok_def bare_measurement_def example_measurement_def example_lib_def
      reads_back_float_def reads_back_int_def hour_utc_def minute_utc_def example_time_def
      whole_seconds_def)







theorem migrated_station_id_witness:
  "source_file (no_faults (written_file bare_measurement))
     = Some (CSV_HEADERS # [map (csv_text example_lib) (to_csv_row example_lib bare_measurement)]) \<and>
   station_id bare_measurement = Some 42 \<and>
   map col_station_id
     (store_after (migrate_csv example_lib 3387 (no_faults (written_file bare_measurement))
        True []))
     = [PInt 3387]"
proof -
  let ?env = "no_faults (written_file bare_measurement)"
  have a: "source_file ?env
     = Some (CSV_HEADERS # [map (csv_text example_lib) (to_csv_row example_lib bare_measurement)])"
    by (simp add: no_faults_completes written_file_eq)
  have b: "station_id bare_measurement = Some 42"
    by (simp add: bare_measurement_def example_measurement_def)
  have d: "completes ?env" "\<not> check_fails ?env 0" "\<not> insert_fails ?env 0"
    by (simp_all add: no_faults_completes) (simp add: no_faults_def)
  have e: "\<not> (True \<and> list_ex (key_matches (whole_seconds (timestamp bare_measurement))
             (PStr (city bare_measurement))) [])"
    by simp
  have l: "length (store_after (migrate_csv example_lib 3387 ?env True [])) = 1"
    using a by (simp add: round_trip [OF bare_codec_ok _ d e])
  obtain ins where i: "store_after (migrate_csv example_lib 3387 ?env True []) = [] @ ins"
    "list_all (\<lambda>r. col_station_id r = PInt 3387) ins"
    using migrated_station_id [OF a, of example_lib 3387 True "[]"] by blast
  then obtain r where "ins = [r]"
    using l by (cases ins) auto
  then show ?thesis using i a b by simp
qed

end
